theory Spec2Isabelle
  imports Complex_Main
begin

section \<open>Data model\<close>

text \<open>
  The resizers of \<^verbatim>\<open>png-resizer.ts\<close> and \<^verbatim>\<open>raster-resizer.ts\<close> compute with
  JavaScript numbers. They are modelled as real numbers: sizes, scales and qualities are
  exact, \<^verbatim>\<open>Math.sqrt\<close> is \<open>sqrt\<close>, \<^verbatim>\<open>Math.round\<close> is \<open>round\<close> (half rounds up in
  both), and the literal \<^verbatim>\<open>1e-3\<close> is \<open>1 / 1000\<close>. Rounding errors of double
  arithmetic and \<^verbatim>\<open>NaN\<close> are outside the model. Iteration budgets are natural numbers.

  A \<^verbatim>\<open>Blob\<close> has a size and a mime type; \<open>payload\<close> stands for its bytes.
\<close>

record 'p blob =
  blob_size :: real
  blob_type :: string
  payload :: 'p

text \<open>The two ways in which the source rejects: \<^verbatim>\<open>img.decode()\<close> fails in
  \<^verbatim>\<open>loadImage\<close>, and \<^verbatim>\<open>toBlobAsync\<close> of the PNG resizer rejects with
  \<^verbatim>\<open>'canvas.toBlob failed'\<close>.\<close>

datatype error = DecodeFailed | ToBlobFailed

text \<open>
  What the browser provides: decoding, the natural dimensions of a decoded image, a fresh
  canvas, drawing an image on the canvas resized to \<open>w\<close> by \<open>h\<close>, encoding the canvas
  (\<^verbatim>\<open>canvas.toBlob\<close>, which may call back with \<^verbatim>\<open>null\<close>), and the optional
  \<^verbatim>\<open>window.UPNG\<close> palette encoder.
\<close>

record ('i, 'c, 'p) browser =
  decode :: "'p blob \<Rightarrow> 'i option"
  naturalWidth :: "'i \<Rightarrow> int"
  naturalHeight :: "'i \<Rightarrow> int"
  createCanvas :: "'c"
  drawImage :: "'i \<Rightarrow> int \<Rightarrow> int \<Rightarrow> 'c \<Rightarrow> 'c"
  toBlob :: "'c \<Rightarrow> string \<Rightarrow> real option \<Rightarrow> 'p blob option"
  UPNG :: "('c \<Rightarrow> real \<Rightarrow> 'p blob) option"

text \<open>
  The calls a run makes, in order: a decode, a PNG probe \<^verbatim>\<open>renderAtScale(img, s, ...)\<close>
  with the blob it produced, a palette encoding, a redraw of the raster canvas at a scale
  (the full-size drawing counts as scale 1), and a raster encoding at a mime type and
  quality with its result.
\<close>

datatype 'p event =
    Decode
  | Probe real "'p blob"
  | Quantize "'p blob"
  | Draw real
  | Encode string real "'p blob option"

text \<open>The option objects. \<^verbatim>\<open>targetKB\<close> is required, every other field is optional and
  gets its default when it is undefined.\<close>

record SizeOptions =
  targetKB :: real
  bufferKB :: "real option"
  minScale :: "real option"

record ResizeOptions = SizeOptions +
  maxIterations :: "nat option"
  useQuantization :: "bool option"
  paletteColors :: "real option"

record RasterOptions = SizeOptions +
  minQuality :: "real option"
  maxQuality :: "real option"
  qualityIterations :: "nat option"
  scaleIterations :: "nat option"

definition dflt :: "'a \<Rightarrow> 'a option \<Rightarrow> 'a" where
  "dflt d x = (case x of None \<Rightarrow> d | Some v \<Rightarrow> v)"

text \<open>The bracket of a scale search with its best probe so far.\<close>

record 'p bracket =
  low :: real
  high :: real
  bestBlob :: "'p blob option"
  bestScale :: real

section \<open>Shared helpers\<close>

definition clamp :: "real \<Rightarrow> real \<Rightarrow> real \<Rightarrow> real" where
  "clamp x a b = max a (min b x)"

definition withinBuffer :: "real \<Rightarrow> real \<Rightarrow> real \<Rightarrow> bool" where
  "withinBuffer sz target buffer \<longleftrightarrow> sz \<ge> target - buffer \<and> sz \<le> target + buffer"

definition loadImage :: "('i, 'c, 'p) browser \<Rightarrow> 'p blob \<Rightarrow> error + 'i" where
  "loadImage br file = (case decode br file of None \<Rightarrow> Inl DecodeFailed | Some img \<Rightarrow> Inr img)"

section \<open>The PNG resizer\<close>

subsection \<open>Helpers over the browser\<close>

definition toBlobAsync_png :: "('i, 'c, 'p) browser \<Rightarrow> 'c \<Rightarrow> error + 'p blob" where
  "toBlobAsync_png br canvas =
     (case toBlob br canvas ''image/png'' None of
        None \<Rightarrow> Inl ToBlobFailed
      | Some b \<Rightarrow> Inr b)"

definition renderAtScale ::
  "('i, 'c, 'p) browser \<Rightarrow> 'i \<Rightarrow> real \<Rightarrow> 'c \<Rightarrow> error + ('p blob \<times> 'c)" where
  "renderAtScale br img scale canvas =
     (let w = max 1 (round (real_of_int (naturalWidth br img) * scale));
          h = max 1 (round (real_of_int (naturalHeight br img) * scale));
          canvas' = drawImage br img w h canvas
      in case toBlobAsync_png br canvas' of
           Inl e \<Rightarrow> Inl e
         | Inr b \<Rightarrow> Inr (b, canvas'))"

text \<open>
  The search itself only sees three operations: loading the image, the probe
  \<^verbatim>\<open>renderAtScale\<close> (which redraws the shared canvas and encodes it), and the optional
  palette encoder \<^verbatim>\<open>quantizeWithUPNG\<close> reading that canvas. They are gathered in
  \<open>png_env\<close>, so that the search can be run with the browser's operations (\<open>browser_env\<close>)
  as well as with any other encode function of the scale.
\<close>

record ('i, 'c, 'p) png_env =
  env_load :: "'p blob \<Rightarrow> error + 'i"
  env_canvas :: "'c"
  env_render :: "'i \<Rightarrow> real \<Rightarrow> 'c \<Rightarrow> error + ('p blob \<times> 'c)"
  env_quantize :: "('c \<Rightarrow> real \<Rightarrow> 'p blob) option"

definition browser_env :: "('i, 'c, 'p) browser \<Rightarrow> ('i, 'c, 'p) png_env" where
  "browser_env br =
     \<lparr> env_load = loadImage br, env_canvas = createCanvas br,
       env_render = renderAtScale br, env_quantize = UPNG br \<rparr>"

subsection \<open>The scale search\<close>

text \<open>One probe: render at the scale, keep the new canvas, record the call.\<close>

definition probeAt ::
  "('i, 'c, 'p) png_env \<Rightarrow> 'i \<Rightarrow> real \<Rightarrow> 'c \<times> 'p event list
     \<Rightarrow> error + ('p blob \<times> 'c \<times> 'p event list)" where
  "probeAt env img s w =
     (case env_render env img s (fst w) of
        Inl e \<Rightarrow> Inl e
      | Inr (b, c') \<Rightarrow> Inr (b, c', snd w @ [Probe s b]))"

definition guessScale :: "real \<Rightarrow> real \<Rightarrow> real \<Rightarrow> real" where
  "guessScale targetBytes fileSize minScale' =
     clamp (sqrt (targetBytes / max 1 fileSize)) minScale' 1"

text \<open>The block "First, try the guess scale once", on the initial bracket
  \<open>low = 0\<close>, \<open>high = 1\<close>, \<open>bestBlob = null\<close>, \<open>bestScale = 1\<close>.\<close>

definition guessProbe ::
  "('i, 'c, 'p) png_env \<Rightarrow> 'i \<Rightarrow> real \<Rightarrow> real \<Rightarrow> 'c \<times> 'p event list
     \<Rightarrow> error + ('p bracket \<times> 'c \<times> 'p event list)" where
  "guessProbe env img targetBytes s w =
     (case probeAt env img s w of
        Inl e \<Rightarrow> Inl e
      | Inr (b, w') \<Rightarrow>
          if blob_size b \<le> targetBytes
          then Inr (\<lparr> low = s, high = 1, bestBlob = Some b, bestScale = s \<rparr>, w')
          else Inr (\<lparr> low = 0, high = s, bestBlob = None, bestScale = 1 \<rparr>, w'))"

text \<open>The bisection loop; the first argument after the bounds is the number of
  iterations left, \<open>maxIterations - i\<close>.\<close>

fun scaleLoop ::
  "('i, 'c, 'p) png_env \<Rightarrow> 'i \<Rightarrow> real \<Rightarrow> real \<Rightarrow> nat \<Rightarrow> 'p bracket \<Rightarrow> 'c \<times> 'p event list
     \<Rightarrow> error + ('p bracket \<times> 'c \<times> 'p event list)" where
  "scaleLoop env img targetBytes minScale' 0 st w = Inr (st, w)"
| "scaleLoop env img targetBytes minScale' (Suc n) st w =
     (if high st - low st > 1 / 1000
      then (let mid = clamp ((low st + high st) / 2) minScale' 1
            in case probeAt env img mid w of
                 Inl e \<Rightarrow> Inl e
               | Inr (b, w') \<Rightarrow>
                   if blob_size b > targetBytes
                   then scaleLoop env img targetBytes minScale' n (st\<lparr> high := mid \<rparr>) w'
                   else scaleLoop env img targetBytes minScale' n
                          (st\<lparr> bestBlob := Some b, bestScale := mid, low := mid \<rparr>) w')
      else Inr (st, w))"

definition scaleSearch ::
  "('i, 'c, 'p) png_env \<Rightarrow> 'i \<Rightarrow> real \<Rightarrow> real \<Rightarrow> real \<Rightarrow> nat \<Rightarrow> 'c \<times> 'p event list
     \<Rightarrow> error + ('p bracket \<times> 'c \<times> 'p event list)" where
  "scaleSearch env img targetBytes fileSize minScale' maxIter w =
     (case guessProbe env img targetBytes (guessScale targetBytes fileSize minScale') w of
        Inl e \<Rightarrow> Inl e
      | Inr (st, w') \<Rightarrow> scaleLoop env img targetBytes minScale' maxIter st w')"

text \<open>"If we never got under target, force the minimum scale".\<close>

definition forceMinScale ::
  "('i, 'c, 'p) png_env \<Rightarrow> 'i \<Rightarrow> real \<Rightarrow> 'p bracket \<Rightarrow> 'c \<times> 'p event list
     \<Rightarrow> error + ('p blob \<times> 'p bracket \<times> 'c \<times> 'p event list)" where
  "forceMinScale env img minScale' st w =
     (case bestBlob st of
        Some b \<Rightarrow> Inr (b, st, w)
      | None \<Rightarrow>
          (case probeAt env img (max minScale' (1 / 100)) w of
             Inl e \<Rightarrow> Inl e
           | Inr (b, w') \<Rightarrow> Inr (b, st\<lparr> bestBlob := Some b, bestScale := minScale' \<rparr>, w')))"

subsection \<open>The palette refinement\<close>

text \<open>\<^verbatim>\<open>binarySearchWithQuantization\<close>: its loop on \<open>low\<close>, \<open>high\<close>, \<open>best\<close>.\<close>

fun quantLoop ::
  "('i, 'c, 'p) png_env \<Rightarrow> ('c \<Rightarrow> real \<Rightarrow> 'p blob) \<Rightarrow> 'i \<Rightarrow> real \<Rightarrow> real \<Rightarrow> real \<Rightarrow> real
     \<Rightarrow> nat \<Rightarrow> real \<Rightarrow> real \<Rightarrow> 'p blob option \<Rightarrow> 'c \<times> 'p event list
     \<Rightarrow> error + ('p blob option \<times> 'c \<times> 'p event list)" where
  "quantLoop env q img minScale' targetBytes bufferBytes colors 0 lo hi best w = Inr (best, w)"
| "quantLoop env q img minScale' targetBytes bufferBytes colors (Suc n) lo hi best w =
     (if hi - lo > 1 / 1000
      then (let mid = clamp ((lo + hi) / 2) minScale' 1
            in case probeAt env img mid w of
                 Inl e \<Rightarrow> Inl e
               | Inr (b, c', evs) \<Rightarrow>
                   (let qBlob = q c' colors; w' = (c', evs @ [Quantize qBlob])
                    in if blob_size qBlob > targetBytes
                       then quantLoop env q img minScale' targetBytes bufferBytes colors n
                              lo mid best w'
                       else if withinBuffer (blob_size qBlob) targetBytes bufferBytes
                       then Inr (Some qBlob, w')
                       else quantLoop env q img minScale' targetBytes bufferBytes colors n
                              mid hi (Some qBlob) w'))
      else Inr (best, w))"

definition binarySearchWithQuantization ::
  "('i, 'c, 'p) png_env \<Rightarrow> ('c \<Rightarrow> real \<Rightarrow> 'p blob) \<Rightarrow> 'i \<Rightarrow> real \<Rightarrow> real \<Rightarrow> real \<Rightarrow> real
     \<Rightarrow> nat \<Rightarrow> real \<Rightarrow> 'c \<times> 'p event list
     \<Rightarrow> error + ('p blob option \<times> 'c \<times> 'p event list)" where
  "binarySearchWithQuantization env q img startScale minScale' targetBytes bufferBytes
       maxIter colors w =
     quantLoop env q img minScale' targetBytes bufferBytes colors maxIter
       minScale' startScale None w"

text \<open>Everything after the scale search: the forced minimum, the tolerance check, the
  palette refinement when it is enabled and present, and the final fallback. The result
  is the returned blob with the calls made.\<close>

definition pngFinish ::
  "('i, 'c, 'p) png_env \<Rightarrow> 'i \<Rightarrow> real \<Rightarrow> real \<Rightarrow> real \<Rightarrow> nat \<Rightarrow> bool \<Rightarrow> real
     \<Rightarrow> 'p bracket \<Rightarrow> 'c \<times> 'p event list \<Rightarrow> error + ('p blob \<times> 'p event list)" where
  "pngFinish env img targetBytes bufferBytes minScale' maxIter useQ colors st w =
     (case forceMinScale env img minScale' st w of
        Inl e \<Rightarrow> Inl e
      | Inr (best, st', c, evs) \<Rightarrow>
          if withinBuffer (blob_size best) targetBytes bufferBytes then Inr (best, evs)
          else (case (if useQ then env_quantize env else None) of
                  None \<Rightarrow> Inr (best, evs)
                | Some q \<Rightarrow>
                    (let quantBlob = q c colors; evs' = evs @ [Quantize quantBlob]
                     in if withinBuffer (blob_size quantBlob) targetBytes bufferBytes
                        then Inr (quantBlob, evs')
                        else (case binarySearchWithQuantization env q img (bestScale st')
                                     minScale' targetBytes bufferBytes maxIter colors (c, evs') of
                                Inl e \<Rightarrow> Inl e
                              | Inr (qBest, c', evs'') \<Rightarrow>
                                  (case qBest of
                                     Some qb \<Rightarrow> Inr (qb, evs'')
                                   | None \<Rightarrow> Inr (best, evs''))))))"

subsection \<open>\<^verbatim>\<open>resizePngToTarget\<close>\<close>

definition pngTargetBytes :: "ResizeOptions \<Rightarrow> real" where
  "pngTargetBytes opts = max (10 * 1024) (min (200 * 1024) (targetKB opts * 1024))"

definition pngBufferBytes :: "ResizeOptions \<Rightarrow> real" where
  "pngBufferBytes opts = dflt 5 (bufferKB opts) * 1024"

definition resizePngToTarget ::
  "('i, 'c, 'p) png_env \<Rightarrow> 'p blob \<Rightarrow> ResizeOptions \<Rightarrow> error + ('p blob \<times> 'p event list)" where
  "resizePngToTarget env file opts =
     (let targetBytes = pngTargetBytes opts;
          bufferBytes = pngBufferBytes opts;
          maxIter = dflt 18 (maxIterations opts);
          minScale' = dflt (5 / 100) (minScale opts);
          useQ = dflt True (useQuantization opts);
          colors = dflt 256 (paletteColors opts)
      in if blob_size file \<ge> targetBytes - bufferBytes \<and> blob_size file \<le> targetBytes + bufferBytes
         then Inr (file, [])
         else (case env_load env file of
                 Inl e \<Rightarrow> Inl e
               | Inr img \<Rightarrow>
                   if blob_size file \<le> targetBytes + bufferBytes then Inr (file, [Decode])
                   else (case scaleSearch env img targetBytes (blob_size file) minScale' maxIter
                                (env_canvas env, [Decode]) of
                           Inl e \<Rightarrow> Inl e
                         | Inr (st, w) \<Rightarrow>
                             pngFinish env img targetBytes bufferBytes minScale' maxIter useQ
                               colors st w)))"

section \<open>The JPEG and WebP resizer\<close>

subsection \<open>Helpers\<close>

text \<open>\<^verbatim>\<open>toBlobAsync(canvas, mime, quality)\<close> of the raster resizer resolves with the
  browser's answer, \<^verbatim>\<open>null\<close> included; the call is recorded.\<close>

definition toBlobAsync ::
  "('i, 'c, 'p) browser \<Rightarrow> 'c \<Rightarrow> string \<Rightarrow> real \<Rightarrow> 'p event list
     \<Rightarrow> 'p blob option \<times> 'p event list" where
  "toBlobAsync br canvas mime quality evs =
     (let r = toBlob br canvas mime (Some quality) in (r, evs @ [Encode mime quality r]))"

definition testMimeSupport ::
  "('i, 'c, 'p) browser \<Rightarrow> 'c \<Rightarrow> string \<Rightarrow> 'p event list \<Rightarrow> bool \<times> 'p event list" where
  "testMimeSupport br canvas mime evs =
     (case toBlobAsync br canvas mime (9 / 10) evs of
        (None, evs') \<Rightarrow> (False, evs')
      | (Some b, evs') \<Rightarrow> (blob_type b = mime, evs'))"

subsection \<open>The quality search at a fixed canvas\<close>

text \<open>The loop of \<^verbatim>\<open>fitByQuality\<close> on \<open>lo\<close>, \<open>hi\<close>, \<open>best\<close>; the natural number counts
  the iterations left. A \<^verbatim>\<open>null\<close> blob breaks out of the loop.\<close>

fun qualityLoop ::
  "('i, 'c, 'p) browser \<Rightarrow> 'c \<Rightarrow> string \<Rightarrow> real \<Rightarrow> real \<Rightarrow> real \<Rightarrow> real \<Rightarrow> nat
     \<Rightarrow> real \<Rightarrow> real \<Rightarrow> 'p blob option \<Rightarrow> 'p event list
     \<Rightarrow> 'p blob option \<times> 'p event list" where
  "qualityLoop br canvas mime targetBytes bufferBytes minQ maxQ 0 lo hi best evs = (best, evs)"
| "qualityLoop br canvas mime targetBytes bufferBytes minQ maxQ (Suc n) lo hi best evs =
     (if hi - lo > 1 / 1000
      then (let mid = clamp ((lo + hi) / 2) minQ maxQ
            in case toBlobAsync br canvas mime mid evs of
                 (None, evs') \<Rightarrow> (best, evs')
               | (Some b, evs') \<Rightarrow>
                   if blob_size b > targetBytes + bufferBytes
                   then qualityLoop br canvas mime targetBytes bufferBytes minQ maxQ n
                          lo mid best evs'
                   else if withinBuffer (blob_size b) targetBytes bufferBytes
                   then (Some b, evs')
                   else qualityLoop br canvas mime targetBytes bufferBytes minQ maxQ n
                          mid hi (Some b) evs')
      else (best, evs))"

definition fitByQuality ::
  "('i, 'c, 'p) browser \<Rightarrow> 'c \<Rightarrow> string \<Rightarrow> real \<Rightarrow> real \<Rightarrow> real \<Rightarrow> real \<Rightarrow> nat
     \<Rightarrow> 'p event list \<Rightarrow> 'p blob option \<times> 'p event list" where
  "fitByQuality br canvas mime targetBytes bufferBytes minQ maxQ iterations evs =
     (case toBlobAsync br canvas mime minQ evs of
        (None, evs1) \<Rightarrow> (None, evs1)
      | (Some minTry, evs1) \<Rightarrow>
          if blob_size minTry > targetBytes + bufferBytes then (None, evs1)
          else if withinBuffer (blob_size minTry) targetBytes bufferBytes
          then (Some minTry, evs1)
          else (case toBlobAsync br canvas mime maxQ evs1 of
                  (Some maxTry, evs2) \<Rightarrow>
                    if blob_size maxTry \<le> targetBytes + bufferBytes
                    then (if withinBuffer (blob_size maxTry) targetBytes bufferBytes
                          then (Some maxTry, evs2)
                          else qualityLoop br canvas mime targetBytes bufferBytes minQ maxQ
                                 iterations ((maxQ + minQ) / 2) maxQ (Some maxTry) evs2)
                    else qualityLoop br canvas mime targetBytes bufferBytes minQ maxQ
                           iterations minQ maxQ (Some minTry) evs2
                | (None, evs2) \<Rightarrow>
                    qualityLoop br canvas mime targetBytes bufferBytes minQ maxQ
                      iterations minQ maxQ (Some minTry) evs2))"

subsection \<open>The scale search around it\<close>

text \<open>The closure \<^verbatim>\<open>tryScale\<close>: redraw the shared canvas at the scale, then search the
  quality there.\<close>

definition tryScale ::
  "('i, 'c, 'p) browser \<Rightarrow> 'i \<Rightarrow> string \<Rightarrow> real \<Rightarrow> real \<Rightarrow> real \<Rightarrow> real \<Rightarrow> nat
     \<Rightarrow> real \<Rightarrow> 'c \<times> 'p event list \<Rightarrow> 'p blob option \<times> 'c \<times> 'p event list" where
  "tryScale br img effMime targetBytes bufferBytes minQ maxQ qIter scale w =
     (let wd = max 1 (round (real_of_int (naturalWidth br img) * scale));
          ht = max 1 (round (real_of_int (naturalHeight br img) * scale));
          canvas' = drawImage br img wd ht (fst w)
      in case fitByQuality br canvas' effMime targetBytes bufferBytes minQ maxQ qIter
                (snd w @ [Draw scale]) of
           (r, evs) \<Rightarrow> (r, canvas', evs))"

text \<open>The branch taken when the quality search at full size found nothing: probe at
  \<open>mid0\<close> and seed the bracket \<open>low = minScale\<close>, \<open>high = 1\<close>, \<open>bestBlob = null\<close>,
  \<open>bestScale = low\<close>.\<close>

definition rasterSeed ::
  "('i, 'c, 'p) browser \<Rightarrow> 'i \<Rightarrow> string \<Rightarrow> real \<Rightarrow> real \<Rightarrow> real \<Rightarrow> real \<Rightarrow> nat
     \<Rightarrow> real \<Rightarrow> real \<Rightarrow> 'c \<times> 'p event list \<Rightarrow> 'p bracket \<times> 'c \<times> 'p event list" where
  "rasterSeed br img effMime targetBytes bufferBytes minQ maxQ qIter minScale' fileSize w =
     (let mid0 = max minScale' (sqrt (targetBytes / max 1 fileSize))
      in case tryScale br img effMime targetBytes bufferBytes minQ maxQ qIter mid0 w of
           (Some first, w') \<Rightarrow>
             if blob_size first \<le> targetBytes + bufferBytes
             then (\<lparr> low = mid0, high = 1, bestBlob = Some first, bestScale = mid0 \<rparr>, w')
             else (\<lparr> low = minScale', high = mid0, bestBlob = None, bestScale = minScale' \<rparr>, w')
         | (None, w') \<Rightarrow>
             (\<lparr> low = minScale', high = mid0, bestBlob = None, bestScale = minScale' \<rparr>, w'))"

text \<open>The outer loop either returns a blob from inside (a probe within the tolerance) or
  runs out and leaves its bracket.\<close>

datatype 'p outcome = Returned "'p blob" | Finished "'p bracket"

fun rasterLoop ::
  "('i, 'c, 'p) browser \<Rightarrow> 'i \<Rightarrow> string \<Rightarrow> real \<Rightarrow> real \<Rightarrow> real \<Rightarrow> real \<Rightarrow> nat
     \<Rightarrow> real \<Rightarrow> nat \<Rightarrow> 'p bracket \<Rightarrow> 'c \<times> 'p event list
     \<Rightarrow> 'p outcome \<times> 'c \<times> 'p event list" where
  "rasterLoop br img effMime targetBytes bufferBytes minQ maxQ qIter minScale' 0 st w =
     (Finished st, w)"
| "rasterLoop br img effMime targetBytes bufferBytes minQ maxQ qIter minScale' (Suc n) st w =
     (if high st - low st > 1 / 1000
      then (let mid = clamp ((low st + high st) / 2) minScale' 1
            in case tryScale br img effMime targetBytes bufferBytes minQ maxQ qIter mid w of
                 (None, w') \<Rightarrow>
                   rasterLoop br img effMime targetBytes bufferBytes minQ maxQ qIter minScale' n
                     (st\<lparr> high := mid \<rparr>) w'
               | (Some b, w') \<Rightarrow>
                   if blob_size b > targetBytes + bufferBytes
                   then rasterLoop br img effMime targetBytes bufferBytes minQ maxQ qIter
                          minScale' n (st\<lparr> high := mid \<rparr>) w'
                   else if withinBuffer (blob_size b) targetBytes bufferBytes
                   then (Returned b, w')
                   else rasterLoop br img effMime targetBytes bufferBytes minQ maxQ qIter
                          minScale' n (st\<lparr> bestBlob := Some b, bestScale := mid, low := mid \<rparr>) w')
      else (Finished st, w))"

text \<open>The last resort: the canvas at \<open>minScale\<close>, encoded at \<open>minQuality\<close>; the input
  file when even that yields no blob.\<close>

definition rasterFloor ::
  "('i, 'c, 'p) browser \<Rightarrow> 'i \<Rightarrow> string \<Rightarrow> real \<Rightarrow> real \<Rightarrow> 'p blob \<Rightarrow> 'c \<times> 'p event list
     \<Rightarrow> 'p blob \<times> 'p event list" where
  "rasterFloor br img effMime minQ minScale' file w =
     (let wd = max 1 (round (real_of_int (naturalWidth br img) * minScale'));
          ht = max 1 (round (real_of_int (naturalHeight br img) * minScale'));
          canvas' = drawImage br img wd ht (fst w)
      in case toBlobAsync br canvas' effMime minQ (snd w @ [Draw minScale']) of
           (Some tiny, evs) \<Rightarrow> (tiny, evs)
         | (None, evs) \<Rightarrow> (file, evs))"

text \<open>Phase B as a whole: seed, loop, best blob or floor.\<close>

definition rasterScaleSearch ::
  "('i, 'c, 'p) browser \<Rightarrow> 'i \<Rightarrow> string \<Rightarrow> real \<Rightarrow> real \<Rightarrow> real \<Rightarrow> real \<Rightarrow> nat
     \<Rightarrow> real \<Rightarrow> nat \<Rightarrow> 'p blob \<Rightarrow> 'c \<times> 'p event list \<Rightarrow> 'p blob \<times> 'p event list" where
  "rasterScaleSearch br img effMime targetBytes bufferBytes minQ maxQ qIter minScale' sIter
       file w =
     (case rasterSeed br img effMime targetBytes bufferBytes minQ maxQ qIter minScale'
             (blob_size file) w of
        (st, w1) \<Rightarrow>
          (case rasterLoop br img effMime targetBytes bufferBytes minQ maxQ qIter minScale'
                  sIter st w1 of
             (Returned b, w2) \<Rightarrow> (b, snd w2)
           | (Finished st', w2) \<Rightarrow>
               (case bestBlob st' of
                  Some b \<Rightarrow> (b, snd w2)
                | None \<Rightarrow> rasterFloor br img effMime minQ minScale' file w2)))"

subsection \<open>\<^verbatim>\<open>resizeRasterToTarget\<close>\<close>

definition rasterTargetBytes :: "RasterOptions \<Rightarrow> real" where
  "rasterTargetBytes opts = max 1 (targetKB opts * 1024)"

definition rasterBufferBytes :: "RasterOptions \<Rightarrow> real" where
  "rasterBufferBytes opts = dflt 5 (bufferKB opts) * 1024"

text \<open>Phase A: decode, draw at full size, settle the mime type, search the quality at
  full size. The result carries what the later phase needs.\<close>

definition fullSizeCanvas :: "('i, 'c, 'p) browser \<Rightarrow> 'i \<Rightarrow> 'c" where
  "fullSizeCanvas br img =
     drawImage br img (naturalWidth br img) (naturalHeight br img) (createCanvas br)"

definition effectiveMime :: "('i, 'c, 'p) browser \<Rightarrow> 'i \<Rightarrow> string \<Rightarrow> string" where
  "effectiveMime br img mime =
     (if fst (testMimeSupport br (fullSizeCanvas br img) mime []) then mime else ''image/jpeg'')"

definition resizeRasterToTarget ::
  "('i, 'c, 'p) browser \<Rightarrow> 'p blob \<Rightarrow> string \<Rightarrow> RasterOptions
     \<Rightarrow> error + ('p blob \<times> 'p event list)" where
  "resizeRasterToTarget br file mime opts =
     (let targetBytes = rasterTargetBytes opts;
          bufferBytes = rasterBufferBytes opts;
          minQ = dflt (3 / 10) (minQuality opts);
          maxQ = dflt (95 / 100) (maxQuality opts);
          qIter = dflt 12 (qualityIterations opts);
          minScale' = dflt (5 / 100) (minScale opts);
          sIter = dflt 12 (scaleIterations opts)
      in if withinBuffer (blob_size file) targetBytes bufferBytes then Inr (file, [])
         else (case loadImage br file of
                 Inl e \<Rightarrow> Inl e
               | Inr img \<Rightarrow>
                   (let canvas = fullSizeCanvas br img;
                        (supported, evs0) = testMimeSupport br canvas mime [Decode, Draw 1];
                        effMime = (if supported then mime else ''image/jpeg'')
                    in case fitByQuality br canvas effMime targetBytes bufferBytes minQ maxQ qIter
                              evs0 of
                         (Some qOnly, evs1) \<Rightarrow>
                           if withinBuffer (blob_size qOnly) targetBytes bufferBytes
                           then Inr (qOnly, evs1)
                           else if blob_size qOnly > targetBytes + bufferBytes
                           then Inr (rasterScaleSearch br img effMime targetBytes bufferBytes
                                       minQ maxQ qIter minScale' sIter file (canvas, evs1))
                           else Inr (qOnly, evs1)
                       | (None, evs1) \<Rightarrow>
                           Inr (rasterScaleSearch br img effMime targetBytes bufferBytes
                                  minQ maxQ qIter minScale' sIter file (canvas, evs1)))))"

definition resizeJpegToTarget ::
  "('i, 'c, 'p) browser \<Rightarrow> 'p blob \<Rightarrow> RasterOptions \<Rightarrow> error + ('p blob \<times> 'p event list)" where
  "resizeJpegToTarget br file opts = resizeRasterToTarget br file ''image/jpeg'' opts"

definition resizeWebpToTarget ::
  "('i, 'c, 'p) browser \<Rightarrow> 'p blob \<Rightarrow> RasterOptions \<Rightarrow> error + ('p blob \<times> 'p event list)" where
  "resizeWebpToTarget br file opts = resizeRasterToTarget br file ''image/webp'' opts"

section \<open>Invariants and concrete runs\<close>

subsection \<open>The invariant of the PNG scale search\<close>

text \<open>
  What holds of the bracket and the calls made so far, after the guess probe and after
  every iteration: \<open>low\<close> is 0 or a probed scale, \<open>high\<close> is 1 or a probed scale, and
  the best blob, when there is one, is the probe made at \<open>low\<close>, fits, and was made at a
  strictly larger scale than every other fitting probe; when there is none, no probe fitted.
\<close>

definition searchInv :: "real \<Rightarrow> real \<Rightarrow> 'p bracket \<Rightarrow> 'p event list \<Rightarrow> bool" where
  "searchInv targetBytes minScale' st evs \<longleftrightarrow>
     (low st = 0 \<or> minScale' \<le> low st)
     \<and> (low st \<le> 1 \<or> low st \<le> minScale')
     \<and> high st \<le> max 1 minScale'
     \<and> (case bestBlob st of
          None \<Rightarrow> (\<forall>s b. Probe s b \<in> set evs \<longrightarrow> blob_size b > targetBytes)
        | Some b \<Rightarrow>
            Probe (bestScale st) b \<in> set evs \<and> blob_size b \<le> targetBytes
            \<and> bestScale st = low st
            \<and> (\<forall>s' b'. Probe s' b' \<in> set evs \<longrightarrow> blob_size b' \<le> targetBytes
                   \<longrightarrow> s' < low st \<or> (s' = low st \<and> b' = b)))"

subsection \<open>Example browsers and inputs\<close>

text \<open>
  A browser for concrete runs: any file decodes, the image is \<open>W\<close> by \<open>H\<close>, a canvas is
  its pair of dimensions (300 by 150 when fresh), and the encoder's size is a given
  function of the canvas dimensions and the quality. The payload of a blob records the
  canvas and the quality it was encoded from.
\<close>

definition mockBrowser ::
  "int \<Rightarrow> int \<Rightarrow> (int \<times> int \<Rightarrow> real option \<Rightarrow> real)
     \<Rightarrow> (unit, int \<times> int, (int \<times> int) \<times> real option) browser" where
  "mockBrowser W H sizeOf =
     \<lparr> decode = (\<lambda>f. Some ()),
       naturalWidth = (\<lambda>i. W),
       naturalHeight = (\<lambda>i. H),
       createCanvas = (300, 150),
       drawImage = (\<lambda>i w h c. (w, h)),
       toBlob = (\<lambda>c mime q. Some \<lparr> blob_size = sizeOf c q, blob_type = mime, payload = (c, q) \<rparr>),
       UPNG = None \<rparr>"

definition inputFile :: "real \<Rightarrow> ((int \<times> int) \<times> real option) blob" where
  "inputFile n = \<lparr> blob_size = n, blob_type = ''image/png'', payload = ((0, 0), None) \<rparr>"

definition pngOptions :: "real \<Rightarrow> ResizeOptions" where
  "pngOptions kb =
     \<lparr> targetKB = kb, bufferKB = None, minScale = None,
       maxIterations = None, useQuantization = None, paletteColors = None \<rparr>"

definition rasterOptions :: "real \<Rightarrow> RasterOptions" where
  "rasterOptions kb =
     \<lparr> targetKB = kb, bufferKB = None, minScale = None,
       minQuality = None, maxQuality = None, qualityIterations = None, scaleIterations = None \<rparr>"

subsection \<open>A concrete scale search\<close>

text \<open>A 1000 by 1000 image whose PNG at \<open>w\<close> by \<open>h\<close> takes \<open>w * h / 2\<close> bytes, a file of
  409600 bytes, a target of 102400 bytes and two iterations.\<close>

definition demoEnv :: "(unit, int \<times> int, (int \<times> int) \<times> real option) png_env" where
  "demoEnv = browser_env (mockBrowser 1000 1000 (\<lambda>c q. real_of_int (fst c * snd c) / 2))"

definition demoBlob :: "int \<Rightarrow> ((int \<times> int) \<times> real option) blob" where
  "demoBlob w = \<lparr> blob_size = real_of_int (w * w) / 2, blob_type = ''image/png'',
                  payload = ((w, w), None) \<rparr>"

definition demoBracket :: "((int \<times> int) \<times> real option) bracket" where
  "demoBracket = \<lparr> low = 3 / 8, high = 1 / 2, bestBlob = Some (demoBlob 375), bestScale = 3 / 8 \<rparr>"

definition demoEvents :: "((int \<times> int) \<times> real option) event list" where
  "demoEvents = [Probe (1 / 2) (demoBlob 500), Probe (1 / 4) (demoBlob 250),
                 Probe (3 / 8) (demoBlob 375)]"

subsection \<open>The synthetic encoder \<open>size(scale) = 512000 * scale\<^sup>2\<close>\<close>

text \<open>An encode function of the scale alone: the blob rendered at scale \<open>s\<close> has
  \<open>512000 * s\<^sup>2\<close> bytes and carries \<open>s\<close> as its payload. The palette encoder is a
  parameter. The input has 512000 bytes (500 KB), the target is 150 KB, the tolerance
  5 KB; the other options are parameters.\<close>

definition synthEnv :: "(unit \<Rightarrow> real \<Rightarrow> real blob) option \<Rightarrow> (unit, unit, real) png_env" where
  "synthEnv q =
     \<lparr> env_load = (\<lambda>f. Inr ()), env_canvas = (),
       env_render = (\<lambda>img s c.
          Inr (\<lparr> blob_size = 512000 * s\<^sup>2, blob_type = ''image/png'', payload = s \<rparr>, ())),
       env_quantize = q \<rparr>"

definition synthFile :: "real blob" where
  "synthFile = \<lparr> blob_size = 512000, blob_type = ''image/png'', payload = 1 \<rparr>"

definition synthOptions :: "nat option \<Rightarrow> bool option \<Rightarrow> real option \<Rightarrow> ResizeOptions" where
  "synthOptions mi uq pc =
     \<lparr> targetKB = 150, bufferKB = Some 5, minScale = None,
       maxIterations = mi, useQuantization = uq, paletteColors = pc \<rparr>"

subsection \<open>The quality search at full size\<close>

text \<open>Phase A of \<^verbatim>\<open>resizeRasterToTarget\<close> on a decoded image: the quality search on the
  full-size canvas with the effective mime type, after the decode, the drawing and the
  mime test.\<close>

definition fullSizeSearch ::
  "('i, 'c, 'p) browser \<Rightarrow> 'i \<Rightarrow> string \<Rightarrow> RasterOptions \<Rightarrow> 'p blob option \<times> 'p event list" where
  "fullSizeSearch br img mime opts =
     fitByQuality br (fullSizeCanvas br img) (effectiveMime br img mime)
       (rasterTargetBytes opts) (rasterBufferBytes opts)
       (dflt (3 / 10) (minQuality opts)) (dflt (95 / 100) (maxQuality opts))
       (dflt 12 (qualityIterations opts))
       (snd (testMimeSupport br (fullSizeCanvas br img) mime [Decode, Draw 1]))"

subsection \<open>A flat encoder\<close>

text \<open>The blobs of \<open>mockBrowser\<close>, and a browser whose encoder yields 1000 bytes whatever
  the canvas and the quality, on a 100 by 100 image.\<close>

definition mockBlob ::
  "real \<Rightarrow> string \<Rightarrow> int \<times> int \<Rightarrow> real option \<Rightarrow> ((int \<times> int) \<times> real option) blob" where
  "mockBlob sz mime c q = \<lparr> blob_size = sz, blob_type = mime, payload = (c, q) \<rparr>"

definition flatBrowser :: "(unit, int \<times> int, (int \<times> int) \<times> real option) browser" where
  "flatBrowser = mockBrowser 100 100 (\<lambda>c q. 1000)"

definition jpegAt :: "real \<Rightarrow> ((int \<times> int) \<times> real option) blob" where
  "jpegAt q = mockBlob 1000 ''image/jpeg'' (100, 100) (Some q)"

subsection \<open>An encoder that never fits\<close>

text \<open>A 1000 by 1000 image whose every encoding takes 1000000 bytes.\<close>

definition hugeBrowser :: "(unit, int \<times> int, (int \<times> int) \<times> real option) browser" where
  "hugeBrowser = mockBrowser 1000 1000 (\<lambda>c q. 1000000)"

definition hugePng :: "int \<Rightarrow> ((int \<times> int) \<times> real option) blob" where
  "hugePng w = mockBlob 1000000 ''image/png'' (w, w) None"

definition hugeJpeg :: "int \<Rightarrow> real \<Rightarrow> ((int \<times> int) \<times> real option) blob" where
  "hugeJpeg w q = mockBlob 1000000 ''image/jpeg'' (w, w) (Some q)"

subsection \<open>An encoder proportional to the pixel count\<close>

text \<open>A 1000 by 1000 image whose encoding at \<open>w\<close> by \<open>h\<close> takes \<open>0.416 * w * h\<close> bytes
  at every quality: 416000 bytes at full size, 104000 bytes at half the scale.\<close>

definition snugBrowser :: "(unit, int \<times> int, (int \<times> int) \<times> real option) browser" where
  "snugBrowser = mockBrowser 1000 1000 (\<lambda>c q. real_of_int (fst c * snd c) * 416 / 1000)"

definition snugJpeg :: "int \<Rightarrow> real \<Rightarrow> ((int \<times> int) \<times> real option) blob" where
  "snugJpeg w q = mockBlob (real_of_int (w * w) * 416 / 1000) ''image/jpeg'' (w, w) (Some q)"

definition snugBracket :: "((int \<times> int) \<times> real option) bracket" where
  "snugBracket = \<lparr> low = 1 / 2, high = 1, bestBlob = Some (snugJpeg 500 (3 / 10)),
                   bestScale = 1 / 2 \<rparr>"

subsection \<open>Encoders that land on the target\<close>

text \<open>A 1000 by 1000 image whose encoding at \<open>w\<close> by \<open>h\<close> takes \<open>0.4096 * w * h\<close> bytes
  (102400 bytes at half the scale), and a 100 by 100 image whose every encoding takes
  100000 bytes.\<close>

definition exactBrowser :: "(unit, int \<times> int, (int \<times> int) \<times> real option) browser" where
  "exactBrowser = mockBrowser 1000 1000 (\<lambda>c q. real_of_int (fst c * snd c) * 4096 / 10000)"

definition exactPng :: "int \<Rightarrow> ((int \<times> int) \<times> real option) blob" where
  "exactPng w = mockBlob (real_of_int (w * w) * 4096 / 10000) ''image/png'' (w, w) None"

definition nearBrowser :: "(unit, int \<times> int, (int \<times> int) \<times> real option) browser" where
  "nearBrowser = mockBrowser 100 100 (\<lambda>c q. 100000)"

definition nearJpeg :: "real \<Rightarrow> ((int \<times> int) \<times> real option) blob" where
  "nearJpeg q = mockBlob 100000 ''image/jpeg'' (100, 100) (Some q)"

subsection \<open>A browser that cannot decode\<close>

definition brokenBrowser :: "(unit, int \<times> int, (int \<times> int) \<times> real option) browser" where
  "brokenBrowser = (mockBrowser 100 100 (\<lambda>c q. 1000))\<lparr> decode := (\<lambda>f. None) \<rparr>"

subsection \<open>A small file of a large image\<close>

text \<open>A 1000 by 1000 image whose encoding at \<open>w\<close> by \<open>h\<close> takes \<open>w * h / 5\<close> bytes at
  every quality (200000 bytes at full size), given as a file of 1024 bytes.\<close>

definition denseBrowser :: "(unit, int \<times> int, (int \<times> int) \<times> real option) browser" where
  "denseBrowser = mockBrowser 1000 1000 (\<lambda>c q. real_of_int (fst c * snd c) / 5)"

definition denseJpeg :: "int \<Rightarrow> real \<Rightarrow> ((int \<times> int) \<times> real option) blob" where
  "denseJpeg w q = mockBlob (real_of_int (w * w) / 5) ''image/jpeg'' (w, w) (Some q)"

section \<open>Properties of the PNG resizer\<close>

subsection \<open>The clamped target\<close>

lemma pngTargetBytes_clamp:
  "pngTargetBytes (opts\<lparr>targetKB := clamp (targetKB opts) 10 200\<rparr>) = pngTargetBytes opts"
  by (simp add: pngTargetBytes_def clamp_def max_def min_def)

lemma resizePng_clamp:
  "resizePngToTarget env file (opts\<lparr>targetKB := clamp (targetKB opts) 10 200\<rparr>)
     = resizePngToTarget env file opts"
proof -
  have b: "pngBufferBytes (opts\<lparr>targetKB := clamp (targetKB opts) 10 200\<rparr>) = pngBufferBytes opts"
    by (simp add: pngBufferBytes_def)
  show ?thesis
    unfolding resizePngToTarget_def pngTargetBytes_clamp b by simp
qed

text \<open>
  C9. \<^verbatim>\<open>resizePngToTarget\<close> works with the target clamped to 10240..204800 bytes: a
  run with any \<open>targetKB\<close> is the run with \<open>targetKB\<close> clamped to 10..200, so a request
  above 200 KB is the request for 200 KB (204800 bytes) and a request below 10 KB is the
  request for 10 KB (10240 bytes); the buffer is \<open>bufferKB * 1024\<close> for every \<open>bufferKB\<close>,
  unclamped.
\<close>

theorem png_target_is_clamped:
  "10 * 1024 \<le> pngTargetBytes opts \<and> pngTargetBytes opts \<le> 200 * 1024
   \<and> resizePngToTarget env file opts
       = resizePngToTarget env file (opts\<lparr>targetKB := clamp (targetKB opts) 10 200\<rparr>)
   \<and> (targetKB opts > 200 \<longrightarrow>
        pngTargetBytes opts = 204800
        \<and> resizePngToTarget env file opts = resizePngToTarget env file (opts\<lparr>targetKB := 200\<rparr>))
   \<and> (targetKB opts < 10 \<longrightarrow>
        pngTargetBytes opts = 10240
        \<and> resizePngToTarget env file opts = resizePngToTarget env file (opts\<lparr>targetKB := 10\<rparr>))
   \<and> (\<forall>b. pngBufferBytes (opts\<lparr>bufferKB := Some b\<rparr>) = b * 1024)"
proof -
  have hi: "targetKB opts > 200 \<Longrightarrow> clamp (targetKB opts) 10 200 = 200"
    and lo: "targetKB opts < 10 \<Longrightarrow> clamp (targetKB opts) 10 200 = 10"
    by (simp_all add: clamp_def)
  have r: "resizePngToTarget env file opts
       = resizePngToTarget env file (opts\<lparr>targetKB := clamp (targetKB opts) 10 200\<rparr>)"
    by (simp add: resizePng_clamp)
  have "targetKB opts > 200 \<longrightarrow>
        pngTargetBytes opts = 204800
        \<and> resizePngToTarget env file opts = resizePngToTarget env file (opts\<lparr>targetKB := 200\<rparr>)"
    using r hi by (auto simp: pngTargetBytes_def)
  moreover have "targetKB opts < 10 \<longrightarrow>
        pngTargetBytes opts = 10240
        \<and> resizePngToTarget env file opts = resizePngToTarget env file (opts\<lparr>targetKB := 10\<rparr>)"
    using r lo by (auto simp: pngTargetBytes_def)
  moreover have "10 * 1024 \<le> pngTargetBytes opts \<and> pngTargetBytes opts \<le> 200 * 1024"
    by (simp add: pngTargetBytes_def)
  moreover have "\<forall>b. pngBufferBytes (opts\<lparr>bufferKB := Some b\<rparr>) = b * 1024"
    by (simp add: pngBufferBytes_def dflt_def)
  ultimately show ?thesis using r by blast
qed

theorem png_target_is_clamped_witness:
  "targetKB (pngOptions 500) > 200
   \<and> pngTargetBytes (pngOptions 500) = 204800
   \<and> resizePngToTarget (browser_env (mockBrowser 1000 1000 (\<lambda>c q. 400000))) (inputFile 900000)
        (pngOptions 500)
     = resizePngToTarget (browser_env (mockBrowser 1000 1000 (\<lambda>c q. 400000))) (inputFile 900000)
        ((pngOptions 500)\<lparr>targetKB := 200\<rparr>)
   \<and> targetKB (pngOptions 3) < 10
   \<and> pngTargetBytes (pngOptions 3) = 10240"
proof -
  have a: "targetKB (pngOptions 500) > 200" and b: "targetKB (pngOptions 3) < 10"
    by (simp_all add: pngOptions_def)
  show ?thesis
    using a b
      png_target_is_clamped [of "pngOptions 500"
        "browser_env (mockBrowser 1000 1000 (\<lambda>c q. 400000))" "inputFile 900000"]
      png_target_is_clamped [of "pngOptions 3"
        "browser_env (mockBrowser 1000 1000 (\<lambda>c q. 400000))" "inputFile 900000"]
    by blast
qed

subsection \<open>The scale search keeps its largest fitting probe\<close>

lemma probeAt_events:
  "probeAt env img s w = Inr (b, c, evs) \<Longrightarrow> evs = snd w @ [Probe s b]"
  by (auto simp: probeAt_def split: sum.splits prod.splits)

lemma clamp_gt_low:
  assumes "h - l > 1 / 1000" "l = 0 \<or> m \<le> l" "l \<le> 1 \<or> l \<le> m" "h \<le> max 1 m"
  shows "l < clamp ((l + h) / 2) m 1"
  using assms by (auto simp: clamp_def max_def min_def split: if_splits)

lemma clamp_bounds:
  "m \<le> clamp x m 1 \<and> (clamp x m 1 \<le> 1 \<or> clamp x m 1 \<le> m) \<and> clamp x m 1 \<le> max 1 m"
  by (auto simp: clamp_def max_def min_def)

lemma guessProbe_inv:
  assumes "guessProbe env img T (guessScale T fs m) (c0, evs0) = Inr (st, c, evs)"
    and "\<forall>s b. Probe s b \<notin> set evs0"
  shows "searchInv T m st evs"
  using assms clamp_bounds[of m "sqrt (T / max 1 fs)"]
  by (auto simp: guessProbe_def searchInv_def guessScale_def
      split: sum.splits prod.splits if_splits dest!: probeAt_events)

lemma scaleLoop_inv:
  "scaleLoop env img T m n st (c0, evs0) = Inr (st', c, evs) \<Longrightarrow> searchInv T m st evs0
     \<Longrightarrow> searchInv T m st' evs"
proof (induction n arbitrary: st c0 evs0)
  case 0
  then show ?case by simp
next
  case (Suc n)
  show ?case
  proof (cases "high st - low st > 1 / 1000")
    case False
    with Suc.prems show ?thesis by simp
  next
    case True
    let ?mid = "clamp ((low st + high st) / 2) m 1"
    from Suc.prems(2) have lowb: "low st = 0 \<or> m \<le> low st" "low st \<le> 1 \<or> low st \<le> m"
      "high st \<le> max 1 m"
      by (simp_all add: searchInv_def)
    have gt: "low st < ?mid" using clamp_gt_low[OF True lowb] .
    note cb = clamp_bounds[of m "(low st + high st) / 2"]
    from Suc.prems(1) True obtain b c1 evs1 where
      p: "probeAt env img ?mid (c0, evs0) = Inr (b, c1, evs1)"
      by (auto simp: Let_def split: sum.splits prod.splits)
    have evs1: "evs1 = evs0 @ [Probe ?mid b]" using probeAt_events[OF p] by simp
    show ?thesis
    proof (cases "blob_size b > T")
      case big: True
      with Suc.prems(1) True p have
        r: "scaleLoop env img T m n (st\<lparr>high := ?mid\<rparr>) (c1, evs1) = Inr (st', c, evs)"
        by (simp add: Let_def)
      have "searchInv T m (st\<lparr>high := ?mid\<rparr>) evs1"
        using Suc.prems(2) big evs1 cb
        by (auto simp: searchInv_def split: option.splits)
      from Suc.IH[OF r this] show ?thesis .
    next
      case small: False
      let ?st = "st\<lparr>bestBlob := Some b, bestScale := ?mid, low := ?mid\<rparr>"
      from small Suc.prems(1) True p have
        r: "scaleLoop env img T m n ?st (c1, evs1) = Inr (st', c, evs)"
        by (simp add: Let_def)
      have prev: "\<forall>s' b'. Probe s' b' \<in> set evs0 \<longrightarrow> blob_size b' \<le> T \<longrightarrow> s' \<le> low st"
        using Suc.prems(2) by (fastforce simp: searchInv_def split: option.splits)
      have "\<forall>s' b'. Probe s' b' \<in> set evs1 \<longrightarrow> blob_size b' \<le> T
               \<longrightarrow> s' < ?mid \<or> (s' = ?mid \<and> b' = b)"
        using prev gt evs1 by fastforce
      then have "searchInv T m ?st evs1"
        using small evs1 cb Suc.prems(2)
        by (simp add: searchInv_def)
      from Suc.IH[OF r this] show ?thesis .
    qed
  qed
qed

lemma scaleSearch_inv:
  assumes "scaleSearch env img T fs m n (c0, evs0) = Inr (st, c, evs)"
    and "\<forall>s b. Probe s b \<notin> set evs0"
  shows "searchInv T m st evs"
proof -
  from assms(1) obtain st1 c1 evs1 where
    g: "guessProbe env img T (guessScale T fs m) (c0, evs0) = Inr (st1, c1, evs1)"
    and l: "scaleLoop env img T m n st1 (c1, evs1) = Inr (st, c, evs)"
    by (auto simp: scaleSearch_def split: sum.splits prod.splits)
  from scaleLoop_inv[OF l guessProbe_inv[OF g assms(2)]] show ?thesis .
qed

lemma quantLoop_result:
  "quantLoop env q img m T B colors n lo hi best (c0, evs0) = Inr (r, c, evs)
     \<Longrightarrow> set evs0 \<subseteq> set evs \<and> (r = best \<or> (\<exists>qb. r = Some qb \<and> Quantize qb \<in> set evs))"
proof (induction n arbitrary: lo hi best c0 evs0)
  case 0
  then show ?case by simp
next
  case (Suc n)
  show ?case
  proof (cases "hi - lo > 1 / 1000")
    case False
    with Suc.prems show ?thesis by simp
  next
    case True
    let ?mid = "clamp ((lo + hi) / 2) m 1"
    from Suc.prems True obtain b c1 evs1 where
      p: "probeAt env img ?mid (c0, evs0) = Inr (b, c1, evs1)"
      by (auto simp: Let_def split: sum.splits prod.splits)
    have evs1: "evs1 = evs0 @ [Probe ?mid b]" using probeAt_events[OF p] by simp
    let ?qb = "q c1 colors"
    let ?evs2 = "evs1 @ [Quantize ?qb]"
    consider (big) "blob_size ?qb > T"
      | (hit) "\<not> blob_size ?qb > T" "withinBuffer (blob_size ?qb) T B"
      | (small) "\<not> blob_size ?qb > T" "\<not> withinBuffer (blob_size ?qb) T B"
      by blast
    then show ?thesis
    proof cases
      case big
      with Suc.prems True p have
        "quantLoop env q img m T B colors n lo ?mid best (c1, ?evs2) = Inr (r, c, evs)"
        by (simp add: Let_def)
      from Suc.IH[OF this] evs1 show ?thesis by auto
    next
      case hit
      with Suc.prems True p have "r = Some ?qb \<and> evs = ?evs2"
        by (auto simp: Let_def)
      with evs1 show ?thesis by auto
    next
      case small
      with Suc.prems True p have
        "quantLoop env q img m T B colors n ?mid hi (Some ?qb) (c1, ?evs2) = Inr (r, c, evs)"
        by (simp add: Let_def)
      from Suc.IH[OF this] evs1 show ?thesis by auto
    qed
  qed
qed

lemma pngFinish_result:
  assumes "pngFinish env img T B m n useQ colors st (c, evs) = Inr (r, evs')"
    and "bestBlob st = Some b"
  shows "r = b \<or> Quantize r \<in> set evs'"
proof -
  have f: "forceMinScale env img m st (c, evs) = Inr (b, st, c, evs)"
    using assms(2) by (simp add: forceMinScale_def)
  show ?thesis
  proof (cases "withinBuffer (blob_size b) T B")
    case True
    with assms(1) f show ?thesis by (simp add: pngFinish_def)
  next
    case nb: False
    show ?thesis
    proof (cases "if useQ then env_quantize env else None")
      case None
      with assms(1) f nb show ?thesis by (simp add: pngFinish_def)
    next
      case (Some q)
      let ?qb = "q c colors"
      show ?thesis
      proof (cases "withinBuffer (blob_size ?qb) T B")
        case True
        with assms(1) f nb Some show ?thesis by (auto simp: pngFinish_def Let_def)
      next
        case nq: False
        define res where
          "res = quantLoop env q img m T B colors n m (bestScale st) None (c, evs @ [Quantize ?qb])"
        from assms(1) f nb Some nq have
          "(case res of Inl e \<Rightarrow> Inl e
            | Inr (qBest, c', evs'') \<Rightarrow>
                (case qBest of Some qb \<Rightarrow> Inr (qb, evs'') | None \<Rightarrow> Inr (b, evs'')))
           = Inr (r, evs')"
          by (simp add: pngFinish_def Let_def binarySearchWithQuantization_def res_def)
        then obtain qBest c2 evs2 where
          l: "res = Inr (qBest, c2, evs2)"
          and r: "r = (case qBest of Some qb \<Rightarrow> qb | None \<Rightarrow> b) \<and> evs' = evs2"
          by (cases res) (auto split: prod.splits option.splits)
        note l = l[unfolded res_def]
        from quantLoop_result[OF l] r show ?thesis by (auto split: option.splits)
      qed
    qed
  qed
qed

text \<open>
  C1. Take a completed run of the scale search of \<^verbatim>\<open>resizePngToTarget\<close> (the guess probe
  and the bisection loop), started before any probe was made, in which some probe produced
  a blob of size at most \<open>targetBytes\<close>. Then the search retains one of its probes, that
  probe's size is at most \<open>targetBytes\<close>, and every other probe of the run with size at
  most \<open>targetBytes\<close> was made at a strictly smaller scale. What the function returns
  after the search is this blob, unless it is a blob produced by the palette encoder.
\<close>

theorem scaleSearch_keeps_largest_fitting:
  assumes "scaleSearch env img targetBytes fileSize minScale' maxIter (c0, evs0) = Inr (st, c, evs)"
    and "\<forall>s b. Probe s b \<notin> set evs0"
    and "\<exists>s b. Probe s b \<in> set evs \<and> blob_size b \<le> targetBytes"
  shows "\<exists>b. bestBlob st = Some b
           \<and> Probe (bestScale st) b \<in> set evs
           \<and> blob_size b \<le> targetBytes
           \<and> (\<forall>s' b'. Probe s' b' \<in> set evs \<and> blob_size b' \<le> targetBytes
                 \<longrightarrow> s' < bestScale st \<or> (s' = bestScale st \<and> b' = b))
           \<and> (\<forall>r evs'. pngFinish env img targetBytes bufferBytes minScale' maxIter useQ colors
                          st (c, evs) = Inr (r, evs')
                 \<longrightarrow> r = b \<or> Quantize r \<in> set evs')"
proof -
  have inv: "searchInv targetBytes minScale' st evs"
    using scaleSearch_inv[OF assms(1,2)] .
  with assms(3) obtain b where b: "bestBlob st = Some b"
    by (cases "bestBlob st") (auto simp: searchInv_def not_less[symmetric])
  with inv have "Probe (bestScale st) b \<in> set evs" "blob_size b \<le> targetBytes"
    "\<forall>s' b'. Probe s' b' \<in> set evs \<and> blob_size b' \<le> targetBytes
        \<longrightarrow> s' < bestScale st \<or> (s' = bestScale st \<and> b' = b)"
    by (auto simp: searchInv_def)
  moreover have "\<forall>r evs'. pngFinish env img targetBytes bufferBytes minScale' maxIter useQ colors
                          st (c, evs) = Inr (r, evs')
                 \<longrightarrow> r = b \<or> Quantize r \<in> set evs'"
  proof (intro allI impI)
    fix r evs'
    assume "pngFinish env img targetBytes bufferBytes minScale' maxIter useQ colors
              st (c, evs) = Inr (r, evs')"
    from pngFinish_result[OF this b] show "r = b \<or> Quantize r \<in> set evs'" .
  qed
  ultimately show ?thesis using b by blast
qed

lemma demoEnv_render:
  "env_render demoEnv () s c =
     Inr (demoBlob (max 1 (round (1000 * s))), (max 1 (round (1000 * s)), max 1 (round (1000 * s))))"
  by (simp add: demoEnv_def browser_env_def mockBrowser_def renderAtScale_def
      toBlobAsync_png_def Let_def demoBlob_def)

lemma demo_scaleSearch:
  "scaleSearch demoEnv () 102400 409600 (5 / 100) 2 ((300, 150), []) =
     Inr (demoBracket, (375, 375), demoEvents)"
  by (simp add: numeral_2_eq_2 scaleSearch_def guessProbe_def probeAt_def demoEnv_render
      guessScale_def clamp_def real_sqrt_divide round_def Let_def demoBlob_def
      demoBracket_def demoEvents_def)

theorem scaleSearch_keeps_largest_fitting_witness:
  "scaleSearch demoEnv () 102400 409600 (5 / 100) 2 ((300, 150), [])
     = Inr (demoBracket, (375, 375), demoEvents)
   \<and> (\<exists>s b. Probe s b \<in> set demoEvents \<and> blob_size b \<le> 102400)
   \<and> (\<exists>b. bestBlob demoBracket = Some b
         \<and> Probe (bestScale demoBracket) b \<in> set demoEvents
         \<and> blob_size b \<le> 102400
         \<and> (\<forall>s' b'. Probe s' b' \<in> set demoEvents \<and> blob_size b' \<le> 102400
               \<longrightarrow> s' < bestScale demoBracket \<or> (s' = bestScale demoBracket \<and> b' = b))
         \<and> (\<forall>r evs'. pngFinish demoEnv () 102400 5120 (5 / 100) 2 True 256
                        demoBracket ((375, 375), demoEvents) = Inr (r, evs')
               \<longrightarrow> r = b \<or> Quantize r \<in> set evs'))"
proof -
  have h2: "\<forall>s b. Probe s b \<notin> set ([] :: ((int \<times> int) \<times> real option) event list)"
    by simp
  have h3: "\<exists>s b. Probe s b \<in> set demoEvents \<and> blob_size b \<le> 102400"
    by (intro exI[of _ "1 / 4"] exI[of _ "demoBlob 250"]) (simp add: demoEvents_def demoBlob_def)
  from scaleSearch_keeps_largest_fitting [OF demo_scaleSearch h2 h3, of 5120 True 256]
    demo_scaleSearch h3
  show ?thesis by blast
qed

subsection \<open>The 150 KB scenario\<close>

lemma sqrt_three_tenths:
  "(sqrt (3 / 10))\<^sup>2 = 3 / 10" "1 / 20 \<le> sqrt (3 / 10)" "sqrt (3 / 10) < 1"
proof -
  show "(sqrt (3 / 10))\<^sup>2 = 3 / 10" by simp
  show "1 / 20 \<le> sqrt (3 / 10)" by (rule real_le_rsqrt) (simp add: power2_eq_square)
  show "sqrt (3 / 10) < 1" by simp
qed

lemma above_guess_too_big:
  assumes "sqrt (3 / 10) < s"
  shows "153600 < 512000 * s\<^sup>2"
proof -
  have "0 \<le> sqrt (3 / 10 :: real)" by simp
  with assms have "(sqrt (3 / 10))\<^sup>2 < s\<^sup>2"
    by (intro power_strict_mono) simp_all
  then show ?thesis by simp
qed

lemma synth_scaleLoop:
  assumes "low st = sqrt (3 / 10)" "bestBlob st = Some bg" "bestScale st = sqrt (3 / 10)"
    "high st \<le> 1"
  shows "\<exists>st' evs'. scaleLoop (synthEnv q) () 153600 (1 / 20) n st ((), evs) = Inr (st', (), evs')
           \<and> bestBlob st' = Some bg \<and> bestScale st' = sqrt (3 / 10) \<and> set evs \<subseteq> set evs'"
  using assms
proof (induction n arbitrary: st evs)
  case 0
  then show ?case by simp
next
  case (Suc n)
  show ?case
  proof (cases "high st - low st > 1 / 1000")
    case False
    with Suc.prems show ?thesis by simp
  next
    case True
    let ?g = "sqrt (3 / 10 :: real)"
    let ?mid = "(?g + high st) / 2"
    let ?b = "\<lparr> blob_size = 512000 * ?mid\<^sup>2, blob_type = ''image/png'', payload = ?mid \<rparr>"
    from True Suc.prems have hg: "?g < high st" by simp
    with Suc.prems sqrt_three_tenths have mid: "clamp ((low st + high st) / 2) (1 / 20) 1 = ?mid"
      by (simp add: clamp_def max_def min_def)
    have big: "153600 < 512000 * ?mid\<^sup>2"
      using hg by (intro above_guess_too_big) simp
    have p: "probeAt (synthEnv q) () ?mid ((), evs) = Inr (?b, (), evs @ [Probe ?mid ?b])"
      by (simp add: probeAt_def synthEnv_def)
    let ?st = "st\<lparr>high := ?mid\<rparr>"
    have step: "scaleLoop (synthEnv q) () 153600 (1 / 20) (Suc n) st ((), evs)
          = scaleLoop (synthEnv q) () 153600 (1 / 20) n ?st ((), evs @ [Probe ?mid ?b])"
      using True by (simp add: Let_def mid p big)
    have "high ?st \<le> 1" using Suc.prems(4) hg by simp
    with Suc.IH[of ?st "evs @ [Probe ?mid ?b]"] Suc.prems
    obtain st' evs' where
      "scaleLoop (synthEnv q) () 153600 (1 / 20) n ?st ((), evs @ [Probe ?mid ?b]) = Inr (st', (), evs')"
      "bestBlob st' = Some bg" "bestScale st' = sqrt (3 / 10)"
      "set (evs @ [Probe ?mid ?b]) \<subseteq> set evs'"
      by auto
    with step show ?thesis by auto
  qed
qed

text \<open>
  C8. With the synthetic encode function \<open>size(scale) = 512000 * scale\<^sup>2\<close>, an input of
  500 KB, a target of 150 KB and a tolerance of 5 KB, \<^verbatim>\<open>resizePngToTarget\<close> returns a
  probe whose size lies in 145 KB .. 155 KB, for every iteration budget and palette
  setting. The probe is the one made at scale \<open>sqrt (150 / 500)\<close>: in exact arithmetic the
  guess lands on the target, every midpoint above it is too big, and the search keeps it.
\<close>

theorem synthetic_150KB_within_tolerance:
  "\<exists>r evs. resizePngToTarget (synthEnv q) synthFile (synthOptions mi uq pc) = Inr (r, evs)
     \<and> 145 * 1024 \<le> blob_size r \<and> blob_size r \<le> 155 * 1024
     \<and> payload r = sqrt (150 / 500)
     \<and> Probe (sqrt (150 / 500)) r \<in> set evs"
proof -
  let ?g = "sqrt (3 / 10 :: real)"
  let ?bg = "\<lparr> blob_size = 153600, blob_type = ''image/png'', payload = ?g \<rparr>"
  let ?st = "\<lparr> low = ?g, high = 1, bestBlob = Some ?bg, bestScale = ?g \<rparr>"
  have g: "guessScale 153600 512000 (1 / 20) = ?g"
    using sqrt_three_tenths by (simp add: guessScale_def clamp_def max_def min_def)
  have gp: "guessProbe (synthEnv q) () 153600 ?g ((), [Decode])
              = Inr (?st, (), [Decode, Probe ?g ?bg])"
    by (simp add: guessProbe_def probeAt_def synthEnv_def)
  from synth_scaleLoop[where st = ?st and bg = ?bg and q = q and n = "dflt 18 mi"
      and evs = "[Decode, Probe ?g ?bg]"]
  obtain st' evs' where
    l: "scaleLoop (synthEnv q) () 153600 (1 / 20) (dflt 18 mi) ?st ((), [Decode, Probe ?g ?bg])
          = Inr (st', (), evs')"
    and b: "bestBlob st' = Some ?bg" and ev: "set [Decode, Probe ?g ?bg] \<subseteq> set evs'"
    by auto
  have s: "scaleSearch (synthEnv q) () 153600 512000 (1 / 20) (dflt 18 mi) ((), [Decode])
             = Inr (st', (), evs')"
    by (simp add: scaleSearch_def g gp l)
  have f: "pngFinish (synthEnv q) () 153600 5120 (1 / 20) (dflt 18 mi) (dflt True uq)
             (dflt 256 pc) st' ((), evs') = Inr (?bg, evs')"
    using b by (simp add: pngFinish_def forceMinScale_def withinBuffer_def)
  have "resizePngToTarget (synthEnv q) synthFile (synthOptions mi uq pc) = Inr (?bg, evs')"
    by (simp add: resizePngToTarget_def pngTargetBytes_def pngBufferBytes_def synthOptions_def
        synthFile_def dflt_def[of _ "Some _"] dflt_def[of _ None] s[unfolded synthEnv_def] f[unfolded synthEnv_def] synthEnv_def)
  with ev show ?thesis by simp
qed

section \<open>Properties of the JPEG and WebP resizer\<close>

subsection \<open>The calls of the quality search\<close>

lemma toBlobAsync_eq:
  "toBlobAsync br c m q evs = (toBlob br c m (Some q), evs @ [Encode m q (toBlob br c m (Some q))])"
  by (simp add: toBlobAsync_def Let_def)

lemma testMimeSupport_eq:
  "testMimeSupport br c m evs =
     ((case toBlob br c m (Some (9 / 10)) of None \<Rightarrow> False | Some b \<Rightarrow> blob_type b = m),
      evs @ [Encode m (9 / 10) (toBlob br c m (Some (9 / 10)))])"
  by (simp add: testMimeSupport_def toBlobAsync_eq split: option.splits)

lemma qualityLoop_draws:
  "qualityLoop br c m T B minQ maxQ n lo hi best evs = (r, evs') \<Longrightarrow> Draw s \<in> set evs'
     \<Longrightarrow> Draw s \<in> set evs"
proof (induction n arbitrary: lo hi best evs)
  case 0
  then show ?case by simp
next
  case (Suc n)
  let ?mid = "clamp ((lo + hi) / 2) minQ maxQ"
  let ?evs = "evs @ [Encode m ?mid (toBlob br c m (Some ?mid))]"
  from Suc.prems(1) have
    "(r, evs') = (best, evs) \<or> (r, evs') = (best, ?evs) \<or> evs' = ?evs
     \<or> (\<exists>lo' hi' best'. qualityLoop br c m T B minQ maxQ n lo' hi' best' ?evs = (r, evs'))"
    by (auto simp: Let_def toBlobAsync_eq split: if_splits option.splits)
  with Suc.prems(2) Suc.IH show ?case by fastforce
qed

lemma fitByQuality_draws:
  "fitByQuality br c m T B minQ maxQ n evs = (r, evs') \<Longrightarrow> Draw s \<in> set evs'
     \<Longrightarrow> Draw s \<in> set evs"
  by (auto simp: fitByQuality_def toBlobAsync_eq split: if_splits option.splits
      dest!: qualityLoop_draws)

lemma resizeRaster_unfold:
  assumes "\<not> withinBuffer (blob_size file) (rasterTargetBytes opts) (rasterBufferBytes opts)"
    and "decode br file = Some img"
  shows "resizeRasterToTarget br file mime opts =
     (case fullSizeSearch br img mime opts of
        (Some qOnly, evs1) \<Rightarrow>
          if withinBuffer (blob_size qOnly) (rasterTargetBytes opts) (rasterBufferBytes opts)
          then Inr (qOnly, evs1)
          else if blob_size qOnly > rasterTargetBytes opts + rasterBufferBytes opts
          then Inr (rasterScaleSearch br img (effectiveMime br img mime)
                      (rasterTargetBytes opts) (rasterBufferBytes opts)
                      (dflt (3 / 10) (minQuality opts)) (dflt (95 / 100) (maxQuality opts))
                      (dflt 12 (qualityIterations opts)) (dflt (5 / 100) (minScale opts))
                      (dflt 12 (scaleIterations opts)) file (fullSizeCanvas br img, evs1))
          else Inr (qOnly, evs1)
      | (None, evs1) \<Rightarrow>
          Inr (rasterScaleSearch br img (effectiveMime br img mime)
                 (rasterTargetBytes opts) (rasterBufferBytes opts)
                 (dflt (3 / 10) (minQuality opts)) (dflt (95 / 100) (maxQuality opts))
                 (dflt 12 (qualityIterations opts)) (dflt (5 / 100) (minScale opts))
                 (dflt 12 (scaleIterations opts)) file (fullSizeCanvas br img, evs1)))"
  using assms
  by (simp add: resizeRasterToTarget_def loadImage_def fullSizeSearch_def effectiveMime_def
      testMimeSupport_eq Let_def split: prod.splits option.splits)

subsection \<open>A fit at full size is returned\<close>

text \<open>
  C3. When the input is not already within the tolerance and decodes, and the quality
  search at full size returns a probe of size at most \<open>targetBytes + bufferBytes\<close>, then
  \<^verbatim>\<open>resizeRasterToTarget\<close> returns exactly that probe, whether or not it is within the
  tolerance, and the only drawing of the run is the full-size one: no probe at a reduced
  scale is made. \<^verbatim>\<open>resizeJpegToTarget\<close> and \<^verbatim>\<open>resizeWebpToTarget\<close> are this function
  at their mime types.
\<close>

theorem full_size_fit_is_returned:
  assumes "\<not> withinBuffer (blob_size file) (rasterTargetBytes opts) (rasterBufferBytes opts)"
    and "decode br file = Some img"
    and "fullSizeSearch br img mime opts = (Some qOnly, evs1)"
    and "blob_size qOnly \<le> rasterTargetBytes opts + rasterBufferBytes opts"
  shows "resizeRasterToTarget br file mime opts = Inr (qOnly, evs1)
         \<and> (\<forall>s. Draw s \<in> set evs1 \<longrightarrow> s = 1)
         \<and> (mime = ''image/jpeg'' \<longrightarrow> resizeJpegToTarget br file opts = Inr (qOnly, evs1))
         \<and> (mime = ''image/webp'' \<longrightarrow> resizeWebpToTarget br file opts = Inr (qOnly, evs1))"
proof -
  have r: "resizeRasterToTarget br file mime opts = Inr (qOnly, evs1)"
    using assms(3,4) by (simp add: resizeRaster_unfold[OF assms(1,2)])
  have "\<forall>s. Draw s \<in> set evs1 \<longrightarrow> s = 1"
  proof (intro allI impI)
    fix s assume "Draw s \<in> set evs1"
    from fitByQuality_draws[OF assms(3)[unfolded fullSizeSearch_def] this]
    show "s = 1" by (simp add: testMimeSupport_eq)
  qed
  with r show ?thesis
    by (auto simp: resizeJpegToTarget_def resizeWebpToTarget_def)
qed

lemmas raster_eval = fitByQuality_def toBlobAsync_eq testMimeSupport_eq
  effectiveMime_def fullSizeCanvas_def rasterTargetBytes_def rasterBufferBytes_def
  rasterOptions_def dflt_def withinBuffer_def clamp_def Let_def mockBrowser_def mockBlob_def

lemma flat_fullSizeSearch:
  "fullSizeSearch flatBrowser () ''image/jpeg'' ((rasterOptions 100)\<lparr>qualityIterations := Some 1\<rparr>)
     = (Some (jpegAt (63 / 80)),
        [Decode, Draw 1, Encode ''image/jpeg'' (9 / 10) (Some (jpegAt (9 / 10))),
         Encode ''image/jpeg'' (3 / 10) (Some (jpegAt (3 / 10))),
         Encode ''image/jpeg'' (19 / 20) (Some (jpegAt (19 / 20))),
         Encode ''image/jpeg'' (63 / 80) (Some (jpegAt (63 / 80)))])"
  by (simp add: fullSizeSearch_def raster_eval flatBrowser_def jpegAt_def)

theorem full_size_fit_is_returned_witness:
  "\<not> withinBuffer (blob_size (inputFile 409600))
        (rasterTargetBytes ((rasterOptions 100)\<lparr>qualityIterations := Some 1\<rparr>))
        (rasterBufferBytes ((rasterOptions 100)\<lparr>qualityIterations := Some 1\<rparr>))
   \<and> decode flatBrowser (inputFile 409600) = Some ()
   \<and> \<not> withinBuffer (blob_size (jpegAt (63 / 80))) 102400 5120
   \<and> resizeJpegToTarget flatBrowser (inputFile 409600)
        ((rasterOptions 100)\<lparr>qualityIterations := Some 1\<rparr>)
      = Inr (jpegAt (63 / 80),
          [Decode, Draw 1, Encode ''image/jpeg'' (9 / 10) (Some (jpegAt (9 / 10))),
           Encode ''image/jpeg'' (3 / 10) (Some (jpegAt (3 / 10))),
           Encode ''image/jpeg'' (19 / 20) (Some (jpegAt (19 / 20))),
           Encode ''image/jpeg'' (63 / 80) (Some (jpegAt (63 / 80)))])"
proof -
  let ?opts = "(rasterOptions 100)\<lparr>qualityIterations := Some 1\<rparr>"
  have h1: "\<not> withinBuffer (blob_size (inputFile 409600))
        (rasterTargetBytes ?opts) (rasterBufferBytes ?opts)"
    by (simp add: raster_eval inputFile_def)
  have h2: "decode flatBrowser (inputFile 409600) = Some ()"
    by (simp add: flatBrowser_def mockBrowser_def)
  have h4: "blob_size (jpegAt (63 / 80)) \<le> rasterTargetBytes ?opts + rasterBufferBytes ?opts"
    by (simp add: raster_eval jpegAt_def)
  have h5: "\<not> withinBuffer (blob_size (jpegAt (63 / 80))) 102400 5120"
    by (simp add: raster_eval jpegAt_def)
  from full_size_fit_is_returned [OF h1 h2 flat_fullSizeSearch h4] h1 h2 h5
  show ?thesis by simp
qed

subsection \<open>The quality search can return a probe below the best one\<close>

text \<open>
  C2 (defect). With the flat encoder every probe has 1000 bytes, far below the target of
  102400 bytes with tolerance 5120. The probe at \<open>maxQuality = 0.95\<close> fits, and the code
  then searches the upper half of the quality range: every midpoint fits as well and
  replaces \<open>best\<close>, so the probe returned is the last midpoint, of quality
  \<open>19443 / 20480 < 0.95\<close>, not the highest-quality fitting probe that was observed.
\<close>

theorem fitByQuality_returns_lower_quality:
  "\<exists>evs. fitByQuality flatBrowser (100, 100) ''image/jpeg'' 102400 5120 (3 / 10) (95 / 100) 12 []
            = (Some (jpegAt (19443 / 20480)), evs)
     \<and> Encode ''image/jpeg'' (95 / 100) (Some (jpegAt (95 / 100))) \<in> set evs
     \<and> blob_size (jpegAt (95 / 100)) \<le> 102400 + 5120
     \<and> jpegAt (19443 / 20480) \<noteq> jpegAt (95 / 100)"
  by (simp add: raster_eval flatBrowser_def jpegAt_def eval_nat_numeral)

subsection \<open>What the raster searches return\<close>

text \<open>Every search appends its calls to the log; the quality search draws nothing, and a
  blob it returns was encoded during the search and has at most
  \<open>targetBytes + bufferBytes\<close> bytes.\<close>

lemma qualityLoop_spec:
  "qualityLoop br c m T B minQ maxQ n lo hi best evs = (r, evs')
     \<Longrightarrow> \<exists>new. evs' = evs @ new \<and> (\<forall>s. Draw s \<notin> set new)
           \<and> (r = best \<or> (\<exists>b q. r = Some b \<and> Encode m q (Some b) \<in> set new
                                \<and> blob_size b \<le> T + B))"
proof (induction n arbitrary: lo hi best evs)
  case 0
  then show ?case by simp
next
  case (Suc n)
  show ?case
  proof (cases "hi - lo > 1 / 1000")
    case False
    with Suc.prems show ?thesis by simp
  next
    case True
    let ?mid = "clamp ((lo + hi) / 2) minQ maxQ"
    let ?e = "Encode m ?mid (toBlob br c m (Some ?mid))"
    show ?thesis
    proof (cases "toBlob br c m (Some ?mid)")
      case None
      with Suc.prems True have "r = best \<and> evs' = evs @ [?e]"
        by (auto simp: Let_def toBlobAsync_eq)
      then show ?thesis by simp
    next
      case (Some b)
      consider (big) "blob_size b > T + B"
        | (hit) "\<not> blob_size b > T + B" "withinBuffer (blob_size b) T B"
        | (small) "\<not> blob_size b > T + B" "\<not> withinBuffer (blob_size b) T B"
        by blast
      then show ?thesis
      proof cases
        case big
        with Suc.prems True Some have
          "qualityLoop br c m T B minQ maxQ n lo ?mid best (evs @ [?e]) = (r, evs')"
          by (simp add: Let_def toBlobAsync_eq)
        from Suc.IH[OF this] obtain new where
          "evs' = (evs @ [?e]) @ new" "\<forall>s. Draw s \<notin> set new"
          "r = best \<or> (\<exists>b q. r = Some b \<and> Encode m q (Some b) \<in> set new \<and> blob_size b \<le> T + B)"
          by blast
        then show ?thesis
          by (intro exI[of _ "?e # new"]) auto
      next
        case hit
        with Suc.prems True Some have "r = Some b \<and> evs' = evs @ [?e]"
          by (auto simp: Let_def toBlobAsync_eq)
        with hit Some show ?thesis
          by (intro exI[of _ "[?e]"]) auto
      next
        case small
        with Suc.prems True Some have
          "qualityLoop br c m T B minQ maxQ n ?mid hi (Some b) (evs @ [?e]) = (r, evs')"
          by (simp add: Let_def toBlobAsync_eq)
        from Suc.IH[OF this] obtain new where
          "evs' = (evs @ [?e]) @ new" "\<forall>s. Draw s \<notin> set new"
          "r = Some b \<or> (\<exists>b q. r = Some b \<and> Encode m q (Some b) \<in> set new \<and> blob_size b \<le> T + B)"
          by blast
        with small Some show ?thesis
          by (intro exI[of _ "?e # new"]) auto
      qed
    qed
  qed
qed

lemma qualityLoop_keeps_some:
  "\<exists>y. fst (qualityLoop br c m T B minQ maxQ n lo hi (Some b0) evs) = Some y"
  by (induction n arbitrary: lo hi b0 evs)
    (auto simp: Let_def toBlobAsync_eq split: option.splits)

lemma fitByQuality_spec:
  assumes "fitByQuality br c m T B minQ maxQ n evs = (r, evs')"
  shows "\<exists>new. evs' = evs @ new \<and> (\<forall>s. Draw s \<notin> set new)
           \<and> (\<forall>b. r = Some b \<longrightarrow> (\<exists>q. Encode m q (Some b) \<in> set new) \<and> blob_size b \<le> T + B)"
proof (cases "toBlob br c m (Some minQ)")
  case None
  with assms show ?thesis by (auto simp: fitByQuality_def toBlobAsync_eq)
next
  case minSome: (Some minTry)
  let ?e1 = "Encode m minQ (Some minTry)"
  let ?e2 = "Encode m maxQ (toBlob br c m (Some maxQ))"
  consider (big) "blob_size minTry > T + B"
    | (hit) "\<not> blob_size minTry > T + B" "withinBuffer (blob_size minTry) T B"
    | (small) "\<not> blob_size minTry > T + B" "\<not> withinBuffer (blob_size minTry) T B"
    by blast
  then show ?thesis
  proof cases
    case big
    with assms minSome have "r = None \<and> evs' = evs @ [?e1]"
      by (auto simp: fitByQuality_def toBlobAsync_eq)
    then show ?thesis by simp
  next
    case hit
    with assms minSome have "r = Some minTry \<and> evs' = evs @ [?e1]"
      by (auto simp: fitByQuality_def toBlobAsync_eq)
    with hit show ?thesis by (intro exI[of _ "[?e1]"]) auto
  next
    case small
    then have False: "\<not> (blob_size minTry > T + B \<or> withinBuffer (blob_size minTry) T B)"
      by simp
    from small have fit1: "blob_size minTry \<le> T + B" by simp
    show ?thesis
    proof (cases "\<exists>maxTry. toBlob br c m (Some maxQ) = Some maxTry \<and> blob_size maxTry \<le> T + B")
      case noMax: False
      with assms minSome False have
        "qualityLoop br c m T B minQ maxQ n minQ maxQ (Some minTry) (evs @ [?e1, ?e2]) = (r, evs')"
        by (auto simp: fitByQuality_def toBlobAsync_eq split: option.splits)
      from qualityLoop_spec[OF this] obtain new where
        "evs' = (evs @ [?e1, ?e2]) @ new" "\<forall>s. Draw s \<notin> set new"
        "r = Some minTry \<or> (\<exists>b q. r = Some b \<and> Encode m q (Some b) \<in> set new \<and> blob_size b \<le> T + B)"
        by blast
      with fit1 show ?thesis
        by (intro exI[of _ "?e1 # ?e2 # new"]) auto
    next
      case True
      then obtain maxTry where mx: "toBlob br c m (Some maxQ) = Some maxTry"
        "blob_size maxTry \<le> T + B" by blast
      show ?thesis
      proof (cases "withinBuffer (blob_size maxTry) T B")
        case True
        with assms minSome False mx have "r = Some maxTry \<and> evs' = evs @ [?e1, ?e2]"
          by (auto simp: fitByQuality_def toBlobAsync_eq)
        with mx show ?thesis
          by (intro exI[of _ "[?e1, ?e2]"]) auto
      next
        case nw: False
        with assms minSome False mx have
          "qualityLoop br c m T B minQ maxQ n ((maxQ + minQ) / 2) maxQ (Some maxTry)
             (evs @ [?e1, ?e2]) = (r, evs')"
          by (simp add: fitByQuality_def toBlobAsync_eq)
        from qualityLoop_spec[OF this] obtain new where
          "evs' = (evs @ [?e1, ?e2]) @ new" "\<forall>s. Draw s \<notin> set new"
          "r = Some maxTry \<or> (\<exists>b q. r = Some b \<and> Encode m q (Some b) \<in> set new \<and> blob_size b \<le> T + B)"
          by blast
        with mx show ?thesis
          by (intro exI[of _ "?e1 # ?e2 # new"]) auto
      qed
    qed
  qed
qed

lemma fitByQuality_none_iff:
  "fst (fitByQuality br c m T B minQ maxQ n evs) = None
     \<longleftrightarrow> (case toBlob br c m (Some minQ) of None \<Rightarrow> True | Some b \<Rightarrow> blob_size b > T + B)"
proof (cases "toBlob br c m (Some minQ)")
  case None
  then show ?thesis by (simp add: fitByQuality_def toBlobAsync_eq)
next
  case (Some minTry)
  show ?thesis
  proof (cases "blob_size minTry > T + B")
    case True
    with Some show ?thesis by (simp add: fitByQuality_def toBlobAsync_eq)
  next
    case False
    have "fst (fitByQuality br c m T B minQ maxQ n evs) \<noteq> None"
      using Some False
      by (auto simp: fitByQuality_def toBlobAsync_eq qualityLoop_keeps_some
          split: option.splits)
    with Some False show ?thesis by simp
  qed
qed

lemma tryScale_spec:
  assumes "tryScale br img m T B minQ maxQ n scale (c, evs) = (r, c', evs')"
  shows "\<exists>new. evs' = evs @ Draw scale # new \<and> (\<forall>s. Draw s \<notin> set new)
           \<and> (\<forall>b. r = Some b \<longrightarrow> (\<exists>q. Encode m q (Some b) \<in> set new) \<and> blob_size b \<le> T + B)"
proof -
  from assms obtain cv where
    "fitByQuality br cv m T B minQ maxQ n (evs @ [Draw scale]) = (r, evs')"
    by (auto simp: tryScale_def Let_def split: prod.splits)
  from fitByQuality_spec[OF this] show ?thesis by auto
qed

lemma rasterSeed_spec:
  assumes "rasterSeed br img m T B minQ maxQ n ms fs (c, evs) = (st, c', evs')"
  shows "\<exists>new. evs' = evs @ new
           \<and> (\<forall>b. bestBlob st = Some b
                  \<longrightarrow> (\<exists>q. Encode m q (Some b) \<in> set new) \<and> blob_size b \<le> T + B)"
proof -
  let ?mid0 = "max ms (sqrt (T / max 1 fs))"
  obtain r c1 evs1 where t: "tryScale br img m T B minQ maxQ n ?mid0 (c, evs) = (r, c1, evs1)"
    by (metis prod_cases3)
  from tryScale_spec[OF t] obtain new where
    new: "evs1 = evs @ Draw ?mid0 # new"
    "\<forall>b. r = Some b \<longrightarrow> (\<exists>q. Encode m q (Some b) \<in> set new) \<and> blob_size b \<le> T + B"
    by blast
  from assms t have "evs' = evs1" "bestBlob st = None \<or> bestBlob st = r"
    by (auto simp: rasterSeed_def Let_def split: option.splits if_splits)
  with new show ?thesis
    by (intro exI[of _ "Draw ?mid0 # new"]) auto
qed

lemma rasterLoop_spec:
  "rasterLoop br img m T B minQ maxQ qn ms n st (c, evs) = (out, c', evs')
     \<Longrightarrow> \<exists>new. evs' = evs @ new
           \<and> (case out of
                Returned b \<Rightarrow> (\<exists>q. Encode m q (Some b) \<in> set new) \<and> blob_size b \<le> T + B
              | Finished st' \<Rightarrow>
                  bestBlob st' = bestBlob st
                  \<or> (\<exists>b q. bestBlob st' = Some b \<and> Encode m q (Some b) \<in> set new
                            \<and> blob_size b \<le> T + B))"
proof (induction n arbitrary: st c evs)
  case 0
  then show ?case by auto
next
  case (Suc n)
  show ?case
  proof (cases "high st - low st > 1 / 1000")
    case False
    with Suc.prems show ?thesis by auto
  next
    case True
    let ?mid = "clamp ((low st + high st) / 2) ms 1"
    obtain r c1 evs1 where t: "tryScale br img m T B minQ maxQ qn ?mid (c, evs) = (r, c1, evs1)"
      by (metis prod_cases3)
    from tryScale_spec[OF t] obtain new1 where
      new1: "evs1 = evs @ Draw ?mid # new1"
      "\<forall>b. r = Some b \<longrightarrow> (\<exists>q. Encode m q (Some b) \<in> set new1) \<and> blob_size b \<le> T + B"
      by blast
    consider (none) "r = None \<or> (\<exists>b. r = Some b \<and> blob_size b > T + B)"
      | (hit) b where "r = Some b" "\<not> blob_size b > T + B" "withinBuffer (blob_size b) T B"
      | (small) b where "r = Some b" "\<not> blob_size b > T + B" "\<not> withinBuffer (blob_size b) T B"
      by (cases r) auto
    then show ?thesis
    proof cases
      case none
      with Suc.prems True t have
        "rasterLoop br img m T B minQ maxQ qn ms n (st\<lparr>high := ?mid\<rparr>) (c1, evs1) = (out, c', evs')"
        by (auto simp: Let_def)
      from Suc.IH[OF this] obtain new where
        "evs' = evs1 @ new"
        "case out of
           Returned b \<Rightarrow> (\<exists>q. Encode m q (Some b) \<in> set new) \<and> blob_size b \<le> T + B
         | Finished st' \<Rightarrow>
             bestBlob st' = bestBlob (st\<lparr>high := ?mid\<rparr>)
             \<or> (\<exists>b q. bestBlob st' = Some b \<and> Encode m q (Some b) \<in> set new
                       \<and> blob_size b \<le> T + B)"
        by blast
      with new1 show ?thesis
        by (intro exI[of _ "Draw ?mid # new1 @ new"]) (auto split: outcome.splits)
    next
      case hit
      with Suc.prems True t have "out = Returned b \<and> evs' = evs1"
        by (auto simp: Let_def)
      with new1 hit show ?thesis
        by (intro exI[of _ "Draw ?mid # new1"]) auto
    next
      case small
      let ?st = "st\<lparr>bestBlob := Some b, bestScale := ?mid, low := ?mid\<rparr>"
      from small Suc.prems True t have
        "rasterLoop br img m T B minQ maxQ qn ms n ?st (c1, evs1) = (out, c', evs')"
        by (auto simp: Let_def)
      from Suc.IH[OF this] obtain new where
        "evs' = evs1 @ new"
        "case out of
           Returned b \<Rightarrow> (\<exists>q. Encode m q (Some b) \<in> set new) \<and> blob_size b \<le> T + B
         | Finished st' \<Rightarrow>
             bestBlob st' = bestBlob ?st
             \<or> (\<exists>b q. bestBlob st' = Some b \<and> Encode m q (Some b) \<in> set new
                       \<and> blob_size b \<le> T + B)"
        by blast
      with new1 small show ?thesis
        by (intro exI[of _ "Draw ?mid # new1 @ new"]) (auto split: outcome.splits)
    qed
  qed
qed

lemma rasterFloor_eq:
  "rasterFloor br img m minQ ms file (c, evs) = (r, evs')
     \<Longrightarrow> \<exists>t. evs' = evs @ [Draw ms, Encode m minQ t]
           \<and> r = (case t of Some tiny \<Rightarrow> tiny | None \<Rightarrow> file)"
  by (auto simp: rasterFloor_def Let_def toBlobAsync_eq split: option.splits)

lemma rasterScaleSearch_floor:
  assumes "rasterScaleSearch br img m T B minQ maxQ qn ms sn file (c, evs) = (r, evs')"
    and "\<forall>q b. Encode m q (Some b) \<in> set (drop (length evs) evs') \<longrightarrow> T + B < blob_size b"
  shows "\<exists>pre t. evs' = pre @ [Draw ms, Encode m minQ t]
           \<and> r = (case t of Some tiny \<Rightarrow> tiny | None \<Rightarrow> file)"
proof -
  obtain st c1 evs1 where
    s: "rasterSeed br img m T B minQ maxQ qn ms (blob_size file) (c, evs) = (st, c1, evs1)"
    by (metis prod_cases3)
  obtain out c2 evs2 where
    l: "rasterLoop br img m T B minQ maxQ qn ms sn st (c1, evs1) = (out, c2, evs2)"
    by (metis prod_cases3)
  from rasterSeed_spec[OF s] obtain new1 where
    new1: "evs1 = evs @ new1"
    "\<forall>b. bestBlob st = Some b \<longrightarrow> (\<exists>q. Encode m q (Some b) \<in> set new1) \<and> blob_size b \<le> T + B"
    by blast
  from rasterLoop_spec[OF l] obtain new2 where
    new2: "evs2 = evs1 @ new2"
    "case out of
       Returned b \<Rightarrow> (\<exists>q. Encode m q (Some b) \<in> set new2) \<and> blob_size b \<le> T + B
     | Finished st' \<Rightarrow>
         bestBlob st' = bestBlob st
         \<or> (\<exists>b q. bestBlob st' = Some b \<and> Encode m q (Some b) \<in> set new2
                   \<and> blob_size b \<le> T + B)"
    by blast
  have ext: "\<exists>more. evs' = evs2 @ more"
    using assms(1) s l
    by (auto simp: rasterScaleSearch_def split: outcome.splits option.splits
        dest!: rasterFloor_eq)
  then obtain more where more: "evs' = evs @ new1 @ new2 @ more"
    using new1(1) new2(1) by auto
  then have nofit: "\<forall>q b. Encode m q (Some b) \<in> set new1 \<union> set new2 \<longrightarrow> T + B < blob_size b"
    using assms(2) by auto
  have st_none: "bestBlob st = None"
  proof (cases "bestBlob st")
    case (Some b)
    with new1(2) nofit show ?thesis by fastforce
  qed simp
  obtain st' where out: "out = Finished st'" "bestBlob st' = None"
  proof (cases out)
    case (Returned b)
    with new2(2) nofit show ?thesis by fastforce
  next
    case (Finished st')
    with new2(2) nofit st_none have "bestBlob st' = None" by fastforce
    with Finished that show ?thesis by blast
  qed
  from assms(1) s l out have "rasterFloor br img m minQ ms file (c2, evs2) = (r, evs')"
    by (simp add: rasterScaleSearch_def)
  from rasterFloor_eq[OF this] show ?thesis by blast
qed

section \<open>The floor fallback\<close>

lemmas png_eval = resizePngToTarget_def pngTargetBytes_def pngBufferBytes_def pngOptions_def
  dflt_def inputFile_def browser_env_def loadImage_def mockBrowser_def mockBlob_def
  scaleSearch_def guessScale_def guessProbe_def probeAt_def renderAtScale_def
  toBlobAsync_png_def clamp_def Let_def round_def real_sqrt_divide pngFinish_def
  forceMinScale_def withinBuffer_def

text \<open>
  C7, as stated, fails on the PNG path: with \<open>minScale = 0.005\<close> and an encoder that never
  fits, the forced render is made at scale \<open>max(minScale, 0.01) = 0.01\<close>, on a 10 by 10
  canvas. The returned blob is that render; the renders at \<open>minScale\<close>, made by the loop
  once the midpoint falls below \<open>minScale\<close>, are 5 by 5 and are not returned.
\<close>

theorem png_floor_is_not_minScale:
  "resizePngToTarget (browser_env hugeBrowser) (inputFile 409600)
       ((pngOptions 100)\<lparr>minScale := Some (1 / 200)\<rparr>)
     = Inr (hugePng 10,
            [Decode, Probe (1 / 2) (hugePng 500), Probe (1 / 4) (hugePng 250),
             Probe (1 / 8) (hugePng 125), Probe (1 / 16) (hugePng 63),
             Probe (1 / 32) (hugePng 31), Probe (1 / 64) (hugePng 16),
             Probe (1 / 128) (hugePng 8)]
            @ replicate 12 (Probe (1 / 200) (hugePng 5))
            @ [Probe (1 / 100) (hugePng 10)])
   \<and> 102400 + 5120 < blob_size (hugePng 5)
   \<and> hugePng 10 \<noteq> hugePng 5"
  by (simp add: png_eval hugeBrowser_def hugePng_def eval_nat_numeral)

lemma quantLoop_collapsed:
  "hi - lo \<le> 1 / 1000
     \<Longrightarrow> quantLoop env q img m T B colors n lo hi best w = Inr (best, w)"
  by (cases n) simp_all

lemma png_floor:
  assumes s: "scaleSearch env img T fs m n (c0, evs0) = Inr (st, c, evs)"
    and np: "\<forall>s b. Probe s b \<notin> set evs0"
    and nofit: "\<forall>s b. Probe s b \<in> set evs \<longrightarrow> T < blob_size b"
    and fr: "env_render env img (max m (1 / 100)) c = Inr (fb, c')"
  shows "\<exists>r evs'. pngFinish env img T B m n useQ colors st (c, evs) = Inr (r, evs')
           \<and> Probe (max m (1 / 100)) fb \<in> set evs'
           \<and> (r = fb \<or> (\<exists>q. useQ \<and> env_quantize env = Some q \<and> r = q c' colors))"
proof -
  let ?evs1 = "evs @ [Probe (max m (1 / 100)) fb]"
  let ?st1 = "st\<lparr>bestBlob := Some fb, bestScale := m\<rparr>"
  have none: "bestBlob st = None"
  proof (cases "bestBlob st")
    case (Some b)
    with scaleSearch_inv[OF s np] have "Probe (bestScale st) b \<in> set evs \<and> blob_size b \<le> T"
      by (auto simp: searchInv_def)
    with nofit show ?thesis by fastforce
  qed simp
  have f: "forceMinScale env img m st (c, evs) = Inr (fb, ?st1, c', ?evs1)"
    using none fr by (simp add: forceMinScale_def probeAt_def)
  show ?thesis
  proof (cases "withinBuffer (blob_size fb) T B")
    case True
    with f show ?thesis by (simp add: pngFinish_def)
  next
    case nb: False
    show ?thesis
    proof (cases "if useQ then env_quantize env else None")
      case None
      with f nb show ?thesis by (simp add: pngFinish_def)
    next
      case (Some q)
      then have q: "useQ" "env_quantize env = Some q" by (auto split: if_splits)
      let ?qb = "q c' colors"
      have b: "binarySearchWithQuantization env q img (bestScale ?st1) m T B n colors
                 (c', ?evs1 @ [Quantize ?qb]) = Inr (None, c', ?evs1 @ [Quantize ?qb])"
        by (simp add: binarySearchWithQuantization_def quantLoop_collapsed)
      show ?thesis
      proof (cases "withinBuffer (blob_size ?qb) T B")
        case True
        with f nb Some q show ?thesis by (simp add: pngFinish_def Let_def)
      next
        case False
        with f nb Some q b show ?thesis by (simp add: pngFinish_def Let_def)
      qed
    qed
  qed
qed

lemma raster_floor:
  assumes nb: "\<not> withinBuffer (blob_size file) (rasterTargetBytes opts) (rasterBufferBytes opts)"
    and d: "decode br file = Some img"
    and run: "resizeRasterToTarget br file mime opts = Inr (r, evs)"
    and nofit: "\<forall>m q b. Encode m q (Some b) \<in> set (drop 3 evs)
                  \<longrightarrow> rasterTargetBytes opts + rasterBufferBytes opts < blob_size b"
  shows "\<exists>pre t. evs = pre @ [Draw (dflt (5 / 100) (minScale opts)),
                               Encode (effectiveMime br img mime)
                                 (dflt (3 / 10) (minQuality opts)) t]
           \<and> r = (case t of Some tiny \<Rightarrow> tiny | None \<Rightarrow> file)"
proof -
  let ?T = "rasterTargetBytes opts" and ?B = "rasterBufferBytes opts"
  let ?m = "effectiveMime br img mime"
  obtain qo evs1 where fs: "fullSizeSearch br img mime opts = (qo, evs1)"
    by (metis surj_pair)
  from fitByQuality_spec[OF fs[unfolded fullSizeSearch_def]] obtain new where
    new: "evs1 = [Decode, Draw 1,
                  Encode mime (9 / 10) (toBlob br (fullSizeCanvas br img) mime (Some (9 / 10)))] @ new"
    "\<forall>b. qo = Some b \<longrightarrow> (\<exists>q. Encode ?m q (Some b) \<in> set new) \<and> blob_size b \<le> ?T + ?B"
    by (auto simp: testMimeSupport_eq)
  have qo: "qo = None"
  proof (cases qo)
    case (Some b)
    with new(2) obtain q where q: "Encode ?m q (Some b) \<in> set new" "blob_size b \<le> ?T + ?B"
      by blast
    from run fs Some q(2) have "evs = evs1"
      by (auto simp: resizeRaster_unfold[OF nb d] split: if_splits)
    with new(1) q(1) have "Encode ?m q (Some b) \<in> set (drop 3 evs)" by simp
    with nofit q(2) show ?thesis by fastforce
  qed simp
  with run fs have rs: "rasterScaleSearch br img ?m ?T ?B
       (dflt (3 / 10) (minQuality opts)) (dflt (95 / 100) (maxQuality opts))
       (dflt 12 (qualityIterations opts)) (dflt (5 / 100) (minScale opts))
       (dflt 12 (scaleIterations opts)) file (fullSizeCanvas br img, evs1) = (r, evs)"
    by (simp add: resizeRaster_unfold[OF nb d])
  have "3 \<le> length evs1" using new(1) by simp
  then have "set (drop (length evs1) evs) \<subseteq> set (drop 3 evs)"
    by (rule set_drop_subset_set_drop)
  with nofit have "\<forall>q b. Encode ?m q (Some b) \<in> set (drop (length evs1) evs)
                     \<longrightarrow> ?T + ?B < blob_size b"
    by blast
  from rasterScaleSearch_floor[OF rs this] show ?thesis .
qed


lemmas raster_run_eval = resizeRasterToTarget_def resizeJpegToTarget_def loadImage_def
  rasterScaleSearch_def rasterSeed_def tryScale_def rasterFloor_def inputFile_def round_def
  real_sqrt_divide raster_eval

text \<open>
  C7, amended. When no probe of the PNG scale search had a size of at most
  \<open>targetBytes\<close> and the forced render succeeds, what follows the search returns a blob
  (it does not reject): the blob rendered at scale \<open>max minScale 0.01\<close>, or, when the
  palette encoder is enabled and present, possibly the palette encoding of the canvas of
  that render. When the input of \<^verbatim>\<open>resizeRasterToTarget\<close> is outside the tolerance and
  decodes, and no encoding after the mime test had a size of at most
  \<open>targetBytes + bufferBytes\<close>, the run ends by drawing at \<open>minScale\<close> and encoding at
  \<open>minQuality\<close>, and returns that blob, or the input file when that encoding yields none.
\<close>

theorem floor_fallback:
  "(scaleSearch env img T fs m n (c0, evs0) = Inr (st, c, evs)
      \<and> (\<forall>s b. Probe s b \<notin> set evs0)
      \<and> (\<forall>s b. Probe s b \<in> set evs \<longrightarrow> T < blob_size b)
      \<and> env_render env img (max m (1 / 100)) c = Inr (fb, c')
    \<longrightarrow> (\<exists>r evs'. pngFinish env img T B m n useQ colors st (c, evs) = Inr (r, evs')
           \<and> Probe (max m (1 / 100)) fb \<in> set evs'
           \<and> (r = fb \<or> (\<exists>q. useQ \<and> env_quantize env = Some q \<and> r = q c' colors))))
   \<and> (\<not> withinBuffer (blob_size file) (rasterTargetBytes opts) (rasterBufferBytes opts)
      \<and> decode br file = Some img'
      \<and> resizeRasterToTarget br file mime opts = Inr (r', evs'')
      \<and> (\<forall>mm q b. Encode mm q (Some b) \<in> set (drop 3 evs'')
             \<longrightarrow> rasterTargetBytes opts + rasterBufferBytes opts < blob_size b)
    \<longrightarrow> (\<exists>pre t. evs'' = pre @ [Draw (dflt (5 / 100) (minScale opts)),
                                   Encode (effectiveMime br img' mime)
                                     (dflt (3 / 10) (minQuality opts)) t]
           \<and> r' = (case t of Some tiny \<Rightarrow> tiny | None \<Rightarrow> file)))"
proof (intro conjI impI)
  assume "scaleSearch env img T fs m n (c0, evs0) = Inr (st, c, evs)
      \<and> (\<forall>s b. Probe s b \<notin> set evs0)
      \<and> (\<forall>s b. Probe s b \<in> set evs \<longrightarrow> T < blob_size b)
      \<and> env_render env img (max m (1 / 100)) c = Inr (fb, c')"
  then show "\<exists>r evs'. pngFinish env img T B m n useQ colors st (c, evs) = Inr (r, evs')
           \<and> Probe (max m (1 / 100)) fb \<in> set evs'
           \<and> (r = fb \<or> (\<exists>q. useQ \<and> env_quantize env = Some q \<and> r = q c' colors))"
    by (intro png_floor) blast+
next
  assume "\<not> withinBuffer (blob_size file) (rasterTargetBytes opts) (rasterBufferBytes opts)
      \<and> decode br file = Some img'
      \<and> resizeRasterToTarget br file mime opts = Inr (r', evs'')
      \<and> (\<forall>mm q b. Encode mm q (Some b) \<in> set (drop 3 evs'')
             \<longrightarrow> rasterTargetBytes opts + rasterBufferBytes opts < blob_size b)"
  then show "\<exists>pre t. evs'' = pre @ [Draw (dflt (5 / 100) (minScale opts)),
                                   Encode (effectiveMime br img' mime)
                                     (dflt (3 / 10) (minQuality opts)) t]
           \<and> r' = (case t of Some tiny \<Rightarrow> tiny | None \<Rightarrow> file)"
    by (intro raster_floor) blast+
qed

lemma huge_scaleSearch:
  "scaleSearch (browser_env hugeBrowser) () 102400 409600 (1 / 200) 2 ((300, 150), [])
     = Inr (\<lparr> low = 0, high = 1 / 8, bestBlob = None, bestScale = 1 \<rparr>, (125, 125),
            [Probe (1 / 2) (hugePng 500), Probe (1 / 4) (hugePng 250),
             Probe (1 / 8) (hugePng 125)])"
  by (simp add: png_eval hugeBrowser_def hugePng_def numeral_2_eq_2)

lemma huge_raster_run:
  "resizeRasterToTarget hugeBrowser (inputFile 409600) ''image/jpeg''
       ((rasterOptions 100)\<lparr>scaleIterations := Some 1\<rparr>)
     = Inr (hugeJpeg 50 (3 / 10),
         [Decode, Draw 1, Encode ''image/jpeg'' (9 / 10) (Some (hugeJpeg 1000 (9 / 10))),
          Encode ''image/jpeg'' (3 / 10) (Some (hugeJpeg 1000 (3 / 10))),
          Draw (1 / 2), Encode ''image/jpeg'' (3 / 10) (Some (hugeJpeg 500 (3 / 10))),
          Draw (11 / 40), Encode ''image/jpeg'' (3 / 10) (Some (hugeJpeg 275 (3 / 10))),
          Draw (1 / 20), Encode ''image/jpeg'' (3 / 10) (Some (hugeJpeg 50 (3 / 10)))])"
  by (simp add: raster_run_eval hugeBrowser_def hugeJpeg_def)

theorem floor_fallback_witness:
  "(\<exists>evs'. pngFinish (browser_env hugeBrowser) () 102400 5120 (1 / 200) 2 True 256
              \<lparr> low = 0, high = 1 / 8, bestBlob = None, bestScale = 1 \<rparr>
              ((125, 125), [Probe (1 / 2) (hugePng 500), Probe (1 / 4) (hugePng 250),
                            Probe (1 / 8) (hugePng 125)])
            = Inr (hugePng 10, evs')
          \<and> Probe (1 / 100) (hugePng 10) \<in> set evs')
   \<and> (\<exists>pre. resizeRasterToTarget hugeBrowser (inputFile 409600) ''image/jpeg''
               ((rasterOptions 100)\<lparr>scaleIterations := Some 1\<rparr>)
             = Inr (hugeJpeg 50 (3 / 10),
                    pre @ [Draw (1 / 20), Encode ''image/jpeg'' (3 / 10)
                                            (Some (hugeJpeg 50 (3 / 10)))]))"
proof -
  let ?opts = "(rasterOptions 100)\<lparr>scaleIterations := Some 1\<rparr>"
  let ?evs = "[Probe (1 / 2) (hugePng 500), Probe (1 / 4) (hugePng 250),
               Probe (1 / 8) (hugePng 125)]"
  let ?log = "[Decode, Draw 1, Encode ''image/jpeg'' (9 / 10) (Some (hugeJpeg 1000 (9 / 10))),
          Encode ''image/jpeg'' (3 / 10) (Some (hugeJpeg 1000 (3 / 10))),
          Draw (1 / 2), Encode ''image/jpeg'' (3 / 10) (Some (hugeJpeg 500 (3 / 10))),
          Draw (11 / 40), Encode ''image/jpeg'' (3 / 10) (Some (hugeJpeg 275 (3 / 10))),
          Draw (1 / 20), Encode ''image/jpeg'' (3 / 10) (Some (hugeJpeg 50 (3 / 10)))]"
  have p1: "\<forall>s b. Probe s b \<notin> set ([] :: ((int \<times> int) \<times> real option) event list)"
    by simp
  have p2: "\<forall>s b. Probe s b \<in> set ?evs \<longrightarrow> 102400 < blob_size b"
    by (auto simp: hugePng_def mockBlob_def)
  have p3: "env_render (browser_env hugeBrowser) () (max (1 / 200) (1 / 100)) (125, 125)
              = Inr (hugePng 10, (10, 10))"
    by (simp add: png_eval hugeBrowser_def hugePng_def)
  have q: "env_quantize (browser_env hugeBrowser) = None"
    by (simp add: browser_env_def hugeBrowser_def mockBrowser_def)
  have r1: "\<not> withinBuffer (blob_size (inputFile 409600))
              (rasterTargetBytes ?opts) (rasterBufferBytes ?opts)"
    by (simp add: raster_eval inputFile_def)
  have r2: "decode hugeBrowser (inputFile 409600) = Some ()"
    by (simp add: hugeBrowser_def mockBrowser_def)
  have r4: "\<forall>mm q b. Encode mm q (Some b) \<in> set (drop 3 ?log)
              \<longrightarrow> rasterTargetBytes ?opts + rasterBufferBytes ?opts < blob_size b"
    by (auto simp: raster_eval hugeJpeg_def)
  have eff: "effectiveMime hugeBrowser () ''image/jpeg'' = ''image/jpeg''"
    by (simp add: raster_eval hugeBrowser_def)
  from floor_fallback [of "browser_env hugeBrowser" "()" 102400 409600 "1 / 200" 2
      "(300, 150)" "[]" "\<lparr> low = 0, high = 1 / 8, bestBlob = None, bestScale = 1 \<rparr>"
      "(125, 125)" ?evs "hugePng 10" "(10, 10)" 5120 True 256
      "inputFile 409600" ?opts hugeBrowser "()" "''image/jpeg''" "hugeJpeg 50 (3 / 10)" ?log]
    huge_scaleSearch p1 p2 p3 r1 r2 r4 huge_raster_run
  have png: "\<exists>r evs'. pngFinish (browser_env hugeBrowser) () 102400 5120 (1 / 200) 2 True 256
              \<lparr> low = 0, high = 1 / 8, bestBlob = None, bestScale = 1 \<rparr> ((125, 125), ?evs)
            = Inr (r, evs')
          \<and> Probe (max (1 / 200) (1 / 100)) (hugePng 10) \<in> set evs'
          \<and> (r = hugePng 10
              \<or> (\<exists>q. True \<and> env_quantize (browser_env hugeBrowser) = Some q
                      \<and> r = q (10, 10) 256))"
    and ras: "\<exists>pre t. ?log = pre @ [Draw (dflt (5 / 100) (minScale ?opts)),
                                   Encode (effectiveMime hugeBrowser () ''image/jpeg'')
                                     (dflt (3 / 10) (minQuality ?opts)) t]
           \<and> hugeJpeg 50 (3 / 10) = (case t of Some tiny \<Rightarrow> tiny | None \<Rightarrow> inputFile 409600)"
    by blast+
  from png q have "\<exists>evs'. pngFinish (browser_env hugeBrowser) () 102400 5120 (1 / 200) 2 True 256
              \<lparr> low = 0, high = 1 / 8, bestBlob = None, bestScale = 1 \<rparr> ((125, 125), ?evs)
            = Inr (hugePng 10, evs')
          \<and> Probe (1 / 100) (hugePng 10) \<in> set evs'"
    by auto
  moreover have "\<exists>pre. resizeRasterToTarget hugeBrowser (inputFile 409600) ''image/jpeg'' ?opts
             = Inr (hugeJpeg 50 (3 / 10),
                    pre @ [Draw (1 / 20), Encode ''image/jpeg'' (3 / 10)
                                            (Some (hugeJpeg 50 (3 / 10)))])"
    using huge_raster_run
    by - (rule exI[of _ "[Decode, Draw 1,
          Encode ''image/jpeg'' (9 / 10) (Some (hugeJpeg 1000 (9 / 10))),
          Encode ''image/jpeg'' (3 / 10) (Some (hugeJpeg 1000 (3 / 10))),
          Draw (1 / 2), Encode ''image/jpeg'' (3 / 10) (Some (hugeJpeg 500 (3 / 10))),
          Draw (11 / 40), Encode ''image/jpeg'' (3 / 10) (Some (hugeJpeg 275 (3 / 10)))]"],
      simp)
  ultimately show ?thesis by blast
qed

section \<open>The best probe so far\<close>

lemma snug_rasterSeed:
  "rasterSeed snugBrowser () ''image/jpeg'' 102400 5120 (3 / 10) (95 / 100) 12 (1 / 20) 409600
       ((1000, 1000), [])
     = (snugBracket, (500, 500),
        [Draw (1 / 2), Encode ''image/jpeg'' (3 / 10) (Some (snugJpeg 500 (3 / 10)))])"
  by (simp add: rasterSeed_def tryScale_def raster_eval snugBrowser_def snugJpeg_def
      snugBracket_def round_def real_sqrt_divide)

text \<open>
  C5, as stated, fails in \<^verbatim>\<open>resizeRasterToTarget\<close>: the probe at the guessed scale is
  stored as \<open>bestBlob\<close> whenever its size is at most \<open>targetBytes + bufferBytes\<close>, with no
  tolerance exit. Here it has 104000 bytes, above the target of 102400 and within the
  tolerance of 5120, and the bracket is still open, so the loop goes on with it. It also
  fails in \<^verbatim>\<open>resizePngToTarget\<close> once the search has found nothing: the forced render
  at the minimum scale is stored as \<open>bestBlob\<close> whatever its size, here 1000000 bytes,
  before the tolerance check and the palette refinement.
\<close>

theorem best_blob_above_target:
  "rasterSeed snugBrowser () ''image/jpeg'' 102400 5120 (3 / 10) (95 / 100) 12 (1 / 20) 409600
       ((1000, 1000), [])
     = (snugBracket, (500, 500),
        [Draw (1 / 2), Encode ''image/jpeg'' (3 / 10) (Some (snugJpeg 500 (3 / 10)))])
   \<and> bestBlob snugBracket = Some (snugJpeg 500 (3 / 10))
   \<and> 102400 < blob_size (snugJpeg 500 (3 / 10))
   \<and> blob_size (snugJpeg 500 (3 / 10)) \<le> 102400 + 5120
   \<and> high snugBracket - low snugBracket > 1 / 1000
   \<and> scaleSearch (browser_env hugeBrowser) () 102400 409600 (1 / 20) 2 ((300, 150), [Decode])
     = Inr (\<lparr> low = 0, high = 1 / 8, bestBlob = None, bestScale = 1 \<rparr>, (125, 125),
            [Decode, Probe (1 / 2) (hugePng 500), Probe (1 / 4) (hugePng 250),
             Probe (1 / 8) (hugePng 125)])
   \<and> forceMinScale (browser_env hugeBrowser) () (1 / 20)
       \<lparr> low = 0, high = 1 / 8, bestBlob = None, bestScale = 1 \<rparr>
       ((125, 125), [Decode, Probe (1 / 2) (hugePng 500), Probe (1 / 4) (hugePng 250),
                     Probe (1 / 8) (hugePng 125)])
     = Inr (hugePng 50,
            \<lparr> low = 0, high = 1 / 8, bestBlob = Some (hugePng 50), bestScale = 1 / 20 \<rparr>,
            (50, 50),
            [Decode, Probe (1 / 2) (hugePng 500), Probe (1 / 4) (hugePng 250),
             Probe (1 / 8) (hugePng 125), Probe (1 / 20) (hugePng 50)])
   \<and> 102400 + 5120 < blob_size (hugePng 50)"
  using snug_rasterSeed
  by (simp add: snugBracket_def snugJpeg_def png_eval hugeBrowser_def hugePng_def
      numeral_2_eq_2)

lemma scaleLoop_best_le:
  "scaleLoop env img T m n st w = Inr (st', w')
     \<Longrightarrow> \<forall>b. bestBlob st = Some b \<longrightarrow> blob_size b \<le> T
     \<Longrightarrow> \<forall>b. bestBlob st' = Some b \<longrightarrow> blob_size b \<le> T"
proof (induction n arbitrary: st w)
  case 0
  then show ?case by simp
next
  case (Suc n)
  show ?case
  proof (cases "high st - low st > 1 / 1000")
    case False
    with Suc.prems show ?thesis by simp
  next
    case True
    let ?mid = "clamp ((low st + high st) / 2) m 1"
    from Suc.prems(1) True obtain b w1 where p: "probeAt env img ?mid w = Inr (b, w1)"
      by (auto simp: Let_def split: sum.splits)
    show ?thesis
    proof (cases "blob_size b > T")
      case True
      with Suc.prems \<open>high st - low st > 1 / 1000\<close> p have
        "scaleLoop env img T m n (st\<lparr>high := ?mid\<rparr>) w1 = Inr (st', w')"
        by (simp add: Let_def)
      from Suc.IH[OF this] Suc.prems(2) show ?thesis by simp
    next
      case False
      with Suc.prems \<open>high st - low st > 1 / 1000\<close> p have
        "scaleLoop env img T m n (st\<lparr>bestBlob := Some b, bestScale := ?mid, low := ?mid\<rparr>) w1
           = Inr (st', w')"
        by (simp add: Let_def)
      from Suc.IH[OF this] False show ?thesis by simp
    qed
  qed
qed

lemma scaleSearch_best_le:
  assumes "scaleSearch env img T fs m n w = Inr (st, w')" "bestBlob st = Some b"
  shows "blob_size b \<le> T"
proof -
  from assms(1) obtain st1 w1 where
    g: "guessProbe env img T (guessScale T fs m) w = Inr (st1, w1)"
    and l: "scaleLoop env img T m n st1 w1 = Inr (st, w')"
    by (auto simp: scaleSearch_def split: sum.splits)
  from g have "\<forall>b. bestBlob st1 = Some b \<longrightarrow> blob_size b \<le> T"
    by (auto simp: guessProbe_def split: sum.splits if_splits)
  from scaleLoop_best_le[OF l this] assms(2) show ?thesis by simp
qed

lemma rasterLoop_best_le:
  assumes "rasterLoop br img m T B minQ maxQ qn ms n st (c, evs) = (out, c', evs')"
    and "\<forall>b. bestBlob st = Some b \<longrightarrow> blob_size b \<le> T + B"
  shows "case out of
           Returned b \<Rightarrow> blob_size b \<le> T + B
         | Finished st' \<Rightarrow> \<forall>b. bestBlob st' = Some b \<longrightarrow> blob_size b \<le> T + B"
  using rasterLoop_spec[OF assms(1)] assms(2)
  by (auto split: outcome.splits)

text \<open>
  C5, amended. In the PNG scale search (the guess probe and the bisection loop, for every
  iteration budget) the best blob, when set, has at most \<open>targetBytes\<close> bytes. In the
  raster searches the bound is the ceiling: the blob returned by \<^verbatim>\<open>fitByQuality\<close> and
  the \<open>bestBlob\<close> of \<^verbatim>\<open>resizeRasterToTarget\<close> after the first scale probe and after
  any number of loop iterations have at most \<open>targetBytes + bufferBytes\<close> bytes.
\<close>

theorem best_so_far_bounds:
  "(scaleSearch env img T fs m n w = Inr (st, wa) \<and> bestBlob st = Some b \<longrightarrow> blob_size b \<le> T)
   \<and> (fitByQuality br c mm U B minQ maxQ qn evs = (Some p, evsa) \<longrightarrow> blob_size p \<le> U + B)
   \<and> (rasterSeed br imgr mm U B minQ maxQ qn ms fr (cs, evss) = (sts, csa, evssa)
        \<and> bestBlob sts = Some ps \<longrightarrow> blob_size ps \<le> U + B)
   \<and> (rasterLoop br imgr mm U B minQ maxQ qn ms sn stl (cl, evsl) = (out, cla, evsla)
        \<and> (\<forall>b. bestBlob stl = Some b \<longrightarrow> blob_size b \<le> U + B)
      \<longrightarrow> (case out of
             Returned b \<Rightarrow> blob_size b \<le> U + B
           | Finished st' \<Rightarrow> \<forall>b. bestBlob st' = Some b \<longrightarrow> blob_size b \<le> U + B))"
proof (intro conjI impI)
  assume "scaleSearch env img T fs m n w = Inr (st, wa) \<and> bestBlob st = Some b"
  then show "blob_size b \<le> T" by (auto intro: scaleSearch_best_le)
next
  assume "fitByQuality br c mm U B minQ maxQ qn evs = (Some p, evsa)"
  from fitByQuality_spec[OF this] show "blob_size p \<le> U + B" by blast
next
  assume a: "rasterSeed br imgr mm U B minQ maxQ qn ms fr (cs, evss) = (sts, csa, evssa)
        \<and> bestBlob sts = Some ps"
  from rasterSeed_spec[OF conjunct1[OF a]] conjunct2[OF a]
  show "blob_size ps \<le> U + B" by auto
next
  assume a: "rasterLoop br imgr mm U B minQ maxQ qn ms sn stl (cl, evsl) = (out, cla, evsla)
        \<and> (\<forall>b. bestBlob stl = Some b \<longrightarrow> blob_size b \<le> U + B)"
  from rasterLoop_best_le[OF conjunct1[OF a] conjunct2[OF a]]
  show "case out of
             Returned b \<Rightarrow> blob_size b \<le> U + B
           | Finished st' \<Rightarrow> \<forall>b. bestBlob st' = Some b \<longrightarrow> blob_size b \<le> U + B" .
qed

lemma snug_fitByQuality:
  "fitByQuality snugBrowser (500, 500) ''image/jpeg'' 102400 5120 (3 / 10) (95 / 100) 12 []
     = (Some (snugJpeg 500 (3 / 10)),
        [Encode ''image/jpeg'' (3 / 10) (Some (snugJpeg 500 (3 / 10)))])"
  by (simp add: raster_eval snugBrowser_def snugJpeg_def)

lemma snug_rasterLoop:
  "rasterLoop snugBrowser () ''image/jpeg'' 102400 5120 (3 / 10) (95 / 100) 12 (1 / 20) 1
       snugBracket ((500, 500), [])
     = (Finished (snugBracket\<lparr>high := 3 / 4\<rparr>), (750, 750),
        [Draw (3 / 4), Encode ''image/jpeg'' (3 / 10) (Some (snugJpeg 750 (3 / 10)))])"
  by (simp add: tryScale_def raster_eval snugBrowser_def snugJpeg_def
      snugBracket_def round_def)

theorem best_so_far_bounds_witness:
  "bestBlob demoBracket = Some (demoBlob 375) \<and> blob_size (demoBlob 375) \<le> 102400
   \<and> bestBlob snugBracket = Some (snugJpeg 500 (3 / 10))
   \<and> blob_size (snugJpeg 500 (3 / 10)) \<le> 102400 + 5120
   \<and> bestBlob (snugBracket\<lparr>high := 3 / 4\<rparr>) = Some (snugJpeg 500 (3 / 10))"
proof -
  have a: "bestBlob demoBracket = Some (demoBlob 375)"
    by (simp add: demoBracket_def)
  have b: "bestBlob snugBracket = Some (snugJpeg 500 (3 / 10))"
    by (simp add: snugBracket_def)
  have c: "\<forall>b. bestBlob snugBracket = Some b \<longrightarrow> blob_size b \<le> 102400 + 5120"
    by (simp add: snugBracket_def snugJpeg_def mockBlob_def)
  note t = best_so_far_bounds [where env = demoEnv and img = "()" and T = 102400
      and fs = 409600 and m = "5 / 100" and n = 2 and w = "((300, 150), [])"
      and st = demoBracket and wa = "((375, 375), demoEvents)" and b = "demoBlob 375"
      and br = snugBrowser and c = "(500, 500)" and mm = "''image/jpeg''" and U = 102400
      and B = 5120 and minQ = "3 / 10" and maxQ = "95 / 100" and qn = 12 and evs = "[]"
      and p = "snugJpeg 500 (3 / 10)"
      and evsa = "[Encode ''image/jpeg'' (3 / 10) (Some (snugJpeg 500 (3 / 10)))]"
      and imgr = "()" and ms = "1 / 20" and fr = 409600 and cs = "(1000, 1000)" and evss = "[]"
      and sts = snugBracket and csa = "(500, 500)"
      and evssa = "[Draw (1 / 2), Encode ''image/jpeg'' (3 / 10) (Some (snugJpeg 500 (3 / 10)))]"
      and ps = "snugJpeg 500 (3 / 10)" and sn = 1 and stl = snugBracket and cl = "(500, 500)"
      and evsl = "[]" and out = "Finished (snugBracket\<lparr>high := 3 / 4\<rparr>)"
      and cla = "(750, 750)"
      and evsla = "[Draw (3 / 4), Encode ''image/jpeg'' (3 / 10) (Some (snugJpeg 750 (3 / 10)))]"]
  from t demo_scaleSearch snug_fitByQuality snug_rasterSeed snug_rasterLoop a b c
  show ?thesis by simp
qed

section \<open>A first probe within the tolerance\<close>

text \<open>
  C6, as stated, fails for the PNG scale search, which has no tolerance exit inside the
  search: here the guess probe at scale 1/2 has exactly 102400 bytes, the target, and the
  search still makes nine more probes before that first probe is returned.
\<close>

theorem png_search_goes_on:
  "resizePngToTarget (browser_env exactBrowser) (inputFile 409600) (pngOptions 100)
     = Inr (exactPng 500,
            [Decode, Probe (1 / 2) (exactPng 500), Probe (3 / 4) (exactPng 750),
             Probe (5 / 8) (exactPng 625), Probe (9 / 16) (exactPng 563),
             Probe (17 / 32) (exactPng 531), Probe (33 / 64) (exactPng 516),
             Probe (65 / 128) (exactPng 508), Probe (129 / 256) (exactPng 504),
             Probe (257 / 512) (exactPng 502), Probe (513 / 1024) (exactPng 501)])
   \<and> withinBuffer (blob_size (exactPng 500)) (pngTargetBytes (pngOptions 100))
        (pngBufferBytes (pngOptions 100))"
  by (simp add: png_eval exactBrowser_def exactPng_def eval_nat_numeral)

text \<open>
  C6, amended. In the raster searches a first probe within the tolerance ends the search:
  when the encoding at \<open>minQuality\<close> lands within the tolerance, \<^verbatim>\<open>fitByQuality\<close> returns
  it after exactly that one encoding; and when this happens at full size, on an input that
  is outside the tolerance and decodes, \<^verbatim>\<open>resizeRasterToTarget\<close> returns it after the
  decode, the full-size drawing, the mime test encoding and that one probe.
\<close>

theorem first_quality_probe_within_tolerance:
  "(toBlob br c m (Some minQ) = Some b \<and> withinBuffer (blob_size b) T B
      \<longrightarrow> fitByQuality br c m T B minQ maxQ n evs = (Some b, evs @ [Encode m minQ (Some b)]))
   \<and> (\<not> withinBuffer (blob_size input) (rasterTargetBytes opts) (rasterBufferBytes opts)
       \<and> decode br input = Some img
       \<and> toBlob br (fullSizeCanvas br img) (effectiveMime br img mime)
            (Some (dflt (3 / 10) (minQuality opts))) = Some p
       \<and> withinBuffer (blob_size p) (rasterTargetBytes opts) (rasterBufferBytes opts)
      \<longrightarrow> resizeRasterToTarget br input mime opts
            = Inr (p, [Decode, Draw 1,
                       Encode mime (9 / 10) (toBlob br (fullSizeCanvas br img) mime (Some (9 / 10))),
                       Encode (effectiveMime br img mime) (dflt (3 / 10) (minQuality opts))
                         (Some p)]))"
proof (intro conjI impI)
  assume "toBlob br c m (Some minQ) = Some b \<and> withinBuffer (blob_size b) T B"
  then show "fitByQuality br c m T B minQ maxQ n evs = (Some b, evs @ [Encode m minQ (Some b)])"
    by (auto simp: fitByQuality_def toBlobAsync_eq withinBuffer_def)
next
  assume a: "\<not> withinBuffer (blob_size input) (rasterTargetBytes opts) (rasterBufferBytes opts)
       \<and> decode br input = Some img
       \<and> toBlob br (fullSizeCanvas br img) (effectiveMime br img mime)
            (Some (dflt (3 / 10) (minQuality opts))) = Some p
       \<and> withinBuffer (blob_size p) (rasterTargetBytes opts) (rasterBufferBytes opts)"
  then have "fullSizeSearch br img mime opts
       = (Some p, [Decode, Draw 1,
                   Encode mime (9 / 10) (toBlob br (fullSizeCanvas br img) mime (Some (9 / 10))),
                   Encode (effectiveMime br img mime) (dflt (3 / 10) (minQuality opts)) (Some p)])"
    by (auto simp: fullSizeSearch_def fitByQuality_def toBlobAsync_eq testMimeSupport_eq
        withinBuffer_def)
  with a show "resizeRasterToTarget br input mime opts
            = Inr (p, [Decode, Draw 1,
                       Encode mime (9 / 10) (toBlob br (fullSizeCanvas br img) mime (Some (9 / 10))),
                       Encode (effectiveMime br img mime) (dflt (3 / 10) (minQuality opts))
                         (Some p)])"
    by (simp add: resizeRaster_unfold)
qed

theorem first_quality_probe_within_tolerance_witness:
  "fitByQuality nearBrowser (100, 100) ''image/jpeg'' 102400 5120 (3 / 10) (95 / 100) 12 []
     = (Some (nearJpeg (3 / 10)), [Encode ''image/jpeg'' (3 / 10) (Some (nearJpeg (3 / 10)))])
   \<and> resizeRasterToTarget nearBrowser (inputFile 409600) ''image/jpeg'' (rasterOptions 100)
     = Inr (nearJpeg (3 / 10),
            [Decode, Draw 1, Encode ''image/jpeg'' (9 / 10) (Some (nearJpeg (9 / 10))),
             Encode ''image/jpeg'' (3 / 10) (Some (nearJpeg (3 / 10)))])"
proof -
  have a: "toBlob nearBrowser (100, 100) ''image/jpeg'' (Some (3 / 10)) = Some (nearJpeg (3 / 10))"
    and a9: "toBlob nearBrowser (100, 100) ''image/jpeg'' (Some (9 / 10)) = Some (nearJpeg (9 / 10))"
    by (simp_all add: nearBrowser_def nearJpeg_def mockBrowser_def mockBlob_def)
  have b: "withinBuffer (blob_size (nearJpeg (3 / 10))) 102400 5120"
    by (simp add: nearJpeg_def mockBlob_def withinBuffer_def)
  have c: "\<not> withinBuffer (blob_size (inputFile 409600)) (rasterTargetBytes (rasterOptions 100))
              (rasterBufferBytes (rasterOptions 100))"
    by (simp add: raster_eval inputFile_def)
  have d: "decode nearBrowser (inputFile 409600) = Some ()"
    by (simp add: nearBrowser_def mockBrowser_def)
  have e: "fullSizeCanvas nearBrowser () = (100, 100)"
    "effectiveMime nearBrowser () ''image/jpeg'' = ''image/jpeg''"
    "dflt (3 / 10) (minQuality (rasterOptions 100)) = 3 / 10"
    "rasterTargetBytes (rasterOptions 100) = 102400"
    "rasterBufferBytes (rasterOptions 100) = 5120"
    by (simp_all add: raster_eval nearBrowser_def)
  from first_quality_probe_within_tolerance [where br = nearBrowser and c = "(100, 100)"
      and m = "''image/jpeg''" and minQ = "3 / 10" and b = "nearJpeg (3 / 10)" and T = 102400
      and B = 5120 and maxQ = "95 / 100" and n = 12 and evs = "[]"
      and input = "inputFile 409600" and opts = "rasterOptions 100" and img = "()"
      and mime = "''image/jpeg''" and p = "nearJpeg (3 / 10)"]
    a a9 b c d e
  show ?thesis by simp
qed

section \<open>Inputs that are already small\<close>

text \<open>
  C10, as stated, fails for an input below the tolerance band that does not decode:
  \<^verbatim>\<open>resizePngToTarget\<close> loads the image before it compares the size with
  \<open>targetBytes + bufferBytes\<close>, so the run rejects instead of returning the input.
\<close>

theorem png_small_input_undecodable:
  "blob_size (inputFile 1000) \<le> pngTargetBytes (pngOptions 100) + pngBufferBytes (pngOptions 100)
   \<and> resizePngToTarget (browser_env brokenBrowser) (inputFile 1000) (pngOptions 100)
       = Inl DecodeFailed"
  by (simp add: png_eval brokenBrowser_def)

lemma fitByQuality_first_event:
  "\<exists>r rest. fitByQuality br c m T B minQ maxQ n evs
      = (r, evs @ Encode m minQ (toBlob br c m (Some minQ)) # rest)"
proof -
  obtain r evs' where f: "fitByQuality br c m T B minQ maxQ n evs = (r, evs')"
    by (metis surj_pair)
  let ?e = "Encode m minQ (toBlob br c m (Some minQ))"
  have "\<exists>rest. evs' = evs @ ?e # rest"
  proof (cases "\<exists>lo hi best. qualityLoop br c m T B minQ maxQ n lo hi best
                  (evs @ [?e, Encode m maxQ (toBlob br c m (Some maxQ))]) = (r, evs')")
    case True
    then obtain lo hi best where
      "qualityLoop br c m T B minQ maxQ n lo hi best
         (evs @ [?e, Encode m maxQ (toBlob br c m (Some maxQ))]) = (r, evs')"
      by blast
    from qualityLoop_spec[OF this] show ?thesis by auto
  next
    case False
    with f show ?thesis
      by (auto simp: fitByQuality_def toBlobAsync_eq split: option.splits if_splits)
  qed
  with f show ?thesis by blast
qed

lemma rasterScaleSearch_extends:
  assumes "rasterScaleSearch br img m T B minQ maxQ qn ms sn file (c, evs) = (r, evs')"
  shows "\<exists>more. evs' = evs @ more"
proof -
  obtain st c1 evs1 where
    s: "rasterSeed br img m T B minQ maxQ qn ms (blob_size file) (c, evs) = (st, c1, evs1)"
    by (metis prod_cases3)
  obtain out c2 evs2 where
    l: "rasterLoop br img m T B minQ maxQ qn ms sn st (c1, evs1) = (out, c2, evs2)"
    by (metis prod_cases3)
  from rasterSeed_spec[OF s] obtain new1 where new1: "evs1 = evs @ new1" by blast
  from rasterLoop_spec[OF l] obtain new2 where new2: "evs2 = evs1 @ new2" by blast
  have "\<exists>more. evs' = evs2 @ more"
    using assms s l
    by (auto simp: rasterScaleSearch_def split: outcome.splits option.splits
        dest!: rasterFloor_eq)
  with new1 new2 show ?thesis by auto
qed

lemma raster_reencodes:
  assumes "blob_size file < rasterTargetBytes opts - rasterBufferBytes opts"
    and "decode br file = Some img"
  shows "\<exists>r rest. resizeRasterToTarget br file mime opts
           = Inr (r, Decode # Draw 1
                     # Encode mime (9 / 10) (toBlob br (fullSizeCanvas br img) mime (Some (9 / 10)))
                     # Encode (effectiveMime br img mime) (dflt (3 / 10) (minQuality opts))
                         (toBlob br (fullSizeCanvas br img) (effectiveMime br img mime)
                            (Some (dflt (3 / 10) (minQuality opts))))
                     # rest)"
proof -
  let ?t0 = "Encode mime (9 / 10) (toBlob br (fullSizeCanvas br img) mime (Some (9 / 10)))"
  let ?t1 = "Encode (effectiveMime br img mime) (dflt (3 / 10) (minQuality opts))
               (toBlob br (fullSizeCanvas br img) (effectiveMime br img mime)
                  (Some (dflt (3 / 10) (minQuality opts))))"
  have nb: "\<not> withinBuffer (blob_size file) (rasterTargetBytes opts) (rasterBufferBytes opts)"
    using assms(1) by (simp add: withinBuffer_def)
  have "\<exists>qo rest. fullSizeSearch br img mime opts = (qo, [Decode, Draw 1, ?t0] @ ?t1 # rest)"
    using fitByQuality_first_event[where br = br and c = "fullSizeCanvas br img"
        and m = "effectiveMime br img mime" and T = "rasterTargetBytes opts"
        and B = "rasterBufferBytes opts" and minQ = "dflt (3 / 10) (minQuality opts)"
        and maxQ = "dflt (95 / 100) (maxQuality opts)" and n = "dflt 12 (qualityIterations opts)"
        and evs = "[Decode, Draw 1, ?t0]"]
    by (simp add: fullSizeSearch_def testMimeSupport_eq)
  then obtain qo rest where
    fs: "fullSizeSearch br img mime opts = (qo, [Decode, Draw 1, ?t0] @ ?t1 # rest)"
    by blast
  have "\<exists>p. resizeRasterToTarget br file mime opts = Inr p"
    by (simp add: resizeRaster_unfold[OF nb assms(2)] split: prod.splits option.splits)
  then obtain r evs where run: "resizeRasterToTarget br file mime opts = Inr (r, evs)"
    by (metis surj_pair)
  have "\<exists>more. evs = ([Decode, Draw 1, ?t0] @ ?t1 # rest) @ more"
  proof (cases "evs = [Decode, Draw 1, ?t0] @ ?t1 # rest")
    case True
    then show ?thesis by simp
  next
    case False
    with run fs obtain m T B minQ maxQ qn ms sn c where
      "rasterScaleSearch br img m T B minQ maxQ qn ms sn file
         (c, [Decode, Draw 1, ?t0] @ ?t1 # rest) = (r, evs)"
      by (auto simp: resizeRaster_unfold[OF nb assms(2)] split: option.splits if_splits)
    from rasterScaleSearch_extends[OF this] show ?thesis .
  qed
  with run show ?thesis by auto
qed

text \<open>
  C10, amended. An input whose size is already within the tolerance is returned as it
  is by \<^verbatim>\<open>resizePngToTarget\<close> and by \<^verbatim>\<open>resizeRasterToTarget\<close>, with no decode and no
  encoding. \<^verbatim>\<open>resizePngToTarget\<close> also returns the input as it is whenever its size is
  at most \<open>targetBytes + bufferBytes\<close> and it decodes: the image is loaded first (a failing
  decode rejects), and nothing is rendered. \<^verbatim>\<open>resizeRasterToTarget\<close>, given an input
  below the tolerance band that decodes, goes on to draw and encode it.
\<close>

theorem small_inputs:
  "(pngTargetBytes popts - pngBufferBytes popts \<le> blob_size f
      \<and> blob_size f \<le> pngTargetBytes popts + pngBufferBytes popts
     \<longrightarrow> resizePngToTarget env f popts = Inr (f, []))
   \<and> (withinBuffer (blob_size g) (rasterTargetBytes ropts) (rasterBufferBytes ropts)
     \<longrightarrow> resizeRasterToTarget br g mime ropts = Inr (g, []))
   \<and> (blob_size f \<le> pngTargetBytes popts + pngBufferBytes popts \<and> env_load env f = Inr img
     \<longrightarrow> resizePngToTarget env f popts = Inr (f, [])
         \<or> resizePngToTarget env f popts = Inr (f, [Decode]))
   \<and> (blob_size g < rasterTargetBytes ropts - rasterBufferBytes ropts \<and> decode br g = Some imgr
     \<longrightarrow> (\<exists>r rest. resizeRasterToTarget br g mime ropts
            = Inr (r, Decode # Draw 1
                      # Encode mime (9 / 10) (toBlob br (fullSizeCanvas br imgr) mime (Some (9 / 10)))
                      # Encode (effectiveMime br imgr mime) (dflt (3 / 10) (minQuality ropts))
                          (toBlob br (fullSizeCanvas br imgr) (effectiveMime br imgr mime)
                             (Some (dflt (3 / 10) (minQuality ropts))))
                      # rest)))"
proof (intro conjI impI)
  assume "pngTargetBytes popts - pngBufferBytes popts \<le> blob_size f
      \<and> blob_size f \<le> pngTargetBytes popts + pngBufferBytes popts"
  then show "resizePngToTarget env f popts = Inr (f, [])"
    by (simp add: resizePngToTarget_def)
next
  assume "withinBuffer (blob_size g) (rasterTargetBytes ropts) (rasterBufferBytes ropts)"
  then show "resizeRasterToTarget br g mime ropts = Inr (g, [])"
    by (simp add: resizeRasterToTarget_def)
next
  assume "blob_size f \<le> pngTargetBytes popts + pngBufferBytes popts \<and> env_load env f = Inr img"
  then show "resizePngToTarget env f popts = Inr (f, [])
         \<or> resizePngToTarget env f popts = Inr (f, [Decode])"
    by (auto simp: resizePngToTarget_def Let_def)
next
  assume a: "blob_size g < rasterTargetBytes ropts - rasterBufferBytes ropts
     \<and> decode br g = Some imgr"
  from raster_reencodes[OF conjunct1[OF a] conjunct2[OF a]]
  show "\<exists>r rest. resizeRasterToTarget br g mime ropts
            = Inr (r, Decode # Draw 1
                      # Encode mime (9 / 10) (toBlob br (fullSizeCanvas br imgr) mime (Some (9 / 10)))
                      # Encode (effectiveMime br imgr mime) (dflt (3 / 10) (minQuality ropts))
                          (toBlob br (fullSizeCanvas br imgr) (effectiveMime br imgr mime)
                             (Some (dflt (3 / 10) (minQuality ropts))))
                      # rest)" .
qed

theorem small_inputs_witness:
  "resizePngToTarget (browser_env flatBrowser) (inputFile 100000) (pngOptions 100)
     = Inr (inputFile 100000, [])
   \<and> resizeRasterToTarget flatBrowser (inputFile 100000) ''image/jpeg'' (rasterOptions 100)
     = Inr (inputFile 100000, [])
   \<and> (resizePngToTarget (browser_env flatBrowser) (inputFile 1000) (pngOptions 100)
         = Inr (inputFile 1000, [])
       \<or> resizePngToTarget (browser_env flatBrowser) (inputFile 1000) (pngOptions 100)
         = Inr (inputFile 1000, [Decode]))
   \<and> (\<exists>r rest. resizeRasterToTarget flatBrowser (inputFile 1000) ''image/jpeg'' (rasterOptions 100)
         = Inr (r, Decode # Draw 1 # Encode ''image/jpeg'' (9 / 10) (Some (jpegAt (9 / 10)))
                   # Encode ''image/jpeg'' (3 / 10) (Some (jpegAt (3 / 10))) # rest))"
proof -
  let ?env = "browser_env flatBrowser"
  have a: "pngTargetBytes (pngOptions 100) - pngBufferBytes (pngOptions 100)
             \<le> blob_size (inputFile 100000)
           \<and> blob_size (inputFile 100000)
             \<le> pngTargetBytes (pngOptions 100) + pngBufferBytes (pngOptions 100)"
    by (simp add: png_eval)
  have b: "withinBuffer (blob_size (inputFile 100000)) (rasterTargetBytes (rasterOptions 100))
             (rasterBufferBytes (rasterOptions 100))"
    by (simp add: raster_eval inputFile_def)
  have c: "blob_size (inputFile 1000)
             \<le> pngTargetBytes (pngOptions 100) + pngBufferBytes (pngOptions 100)
           \<and> env_load ?env (inputFile 1000) = Inr ()"
    by (simp add: png_eval flatBrowser_def)
  have d: "blob_size (inputFile 1000)
             < rasterTargetBytes (rasterOptions 100) - rasterBufferBytes (rasterOptions 100)
           \<and> decode flatBrowser (inputFile 1000) = Some ()"
    by (simp add: raster_eval inputFile_def flatBrowser_def)
  have e: "fullSizeCanvas flatBrowser () = (100, 100)"
    "effectiveMime flatBrowser () ''image/jpeg'' = ''image/jpeg''"
    "dflt (3 / 10) (minQuality (rasterOptions 100)) = 3 / 10"
    "toBlob flatBrowser (100, 100) ''image/jpeg'' (Some (3 / 10)) = Some (jpegAt (3 / 10))"
    "toBlob flatBrowser (100, 100) ''image/jpeg'' (Some (9 / 10)) = Some (jpegAt (9 / 10))"
    by (simp_all add: raster_eval flatBrowser_def jpegAt_def)
  note big = small_inputs [where popts = "pngOptions 100" and f = "inputFile 100000"
      and env = ?env and g = "inputFile 100000" and ropts = "rasterOptions 100"
      and br = flatBrowser and mime = "''image/jpeg''"]
  note small = small_inputs [where popts = "pngOptions 100" and f = "inputFile 1000"
      and env = ?env and g = "inputFile 1000" and ropts = "rasterOptions 100"
      and br = flatBrowser and mime = "''image/jpeg''" and img = "()" and imgr = "()"]
  from big a b have "resizePngToTarget ?env (inputFile 100000) (pngOptions 100)
       = Inr (inputFile 100000, [])"
    "resizeRasterToTarget flatBrowser (inputFile 100000) ''image/jpeg'' (rasterOptions 100)
       = Inr (inputFile 100000, [])"
    by blast+
  moreover from small c have "resizePngToTarget ?env (inputFile 1000) (pngOptions 100)
         = Inr (inputFile 1000, [])
       \<or> resizePngToTarget ?env (inputFile 1000) (pngOptions 100)
         = Inr (inputFile 1000, [Decode])"
    by blast
  moreover from small d have "\<exists>r rest.
       resizeRasterToTarget flatBrowser (inputFile 1000) ''image/jpeg'' (rasterOptions 100)
         = Inr (r, Decode # Draw 1 # Encode ''image/jpeg'' (9 / 10) (Some (jpegAt (9 / 10)))
                   # Encode ''image/jpeg'' (3 / 10) (Some (jpegAt (3 / 10))) # rest)"
    unfolding e by blast
  ultimately show ?thesis by blast
qed

section \<open>The bracket of the raster scale search\<close>

lemma sqrt_100: "sqrt 100 = 10"
  by (rule real_sqrt_unique) simp_all

text \<open>
  C4 (defect). The first scale probe of \<^verbatim>\<open>resizeRasterToTarget\<close> is made at
  \<open>max minScale (sqrt (targetBytes / fileSize))\<close>, which is not clamped to 1 as the guess
  of the PNG resizer is. With a file of 1024 bytes and a target of 102400 bytes it is 10:
  the image is drawn at ten times its size, outside the bounds \<open>0.05 .. 1\<close>, and \<open>high\<close>
  goes from 1 up to 10.
\<close>

theorem raster_guess_leaves_bounds:
  "rasterSeed denseBrowser () ''image/jpeg'' 102400 5120 (3 / 10) (95 / 100) 12 (1 / 20) 1024
       ((1000, 1000), [])
     = (\<lparr> low = 1 / 20, high = 10, bestBlob = None, bestScale = 1 / 20 \<rparr>, (10000, 10000),
        [Draw 10, Encode ''image/jpeg'' (3 / 10) (Some (denseJpeg 10000 (3 / 10)))])
   \<and> (\<exists>r evs. resizeJpegToTarget denseBrowser (inputFile 1024) (rasterOptions 100) = Inr (r, evs)
         \<and> Draw 10 \<in> set evs)"
  by (simp add: raster_run_eval denseBrowser_def denseJpeg_def sqrt_100 eval_nat_numeral)

text \<open>The scale loops themselves keep their brackets: started with
  \<open>minScale \<le> high \<le> 1\<close> and \<open>low \<le> high\<close>, \<open>low\<close> only grows, \<open>high\<close> only shrinks
  and \<open>low \<le> high\<close> is kept.\<close>

lemma clamp_mid_in_bracket:
  assumes "h - l > 1 / 1000" "a \<le> h" "h \<le> b"
  shows "l < clamp ((l + h) / 2) a b" "clamp ((l + h) / 2) a b \<le> h"
    "a \<le> clamp ((l + h) / 2) a b"
  using assms by (auto simp: clamp_def max_def min_def)

lemma scaleLoop_bracket:
  "scaleLoop env img T m n st w = Inr (st', w') \<Longrightarrow> m \<le> high st \<Longrightarrow> high st \<le> 1
     \<Longrightarrow> low st \<le> high st
     \<Longrightarrow> low st \<le> low st' \<and> high st' \<le> high st \<and> low st' \<le> high st' \<and> m \<le> high st'"
proof (induction n arbitrary: st w)
  case 0
  then show ?case by simp
next
  case (Suc n)
  show ?case
  proof (cases "high st - low st > 1 / 1000")
    case False
    with Suc.prems show ?thesis by simp
  next
    case True
    let ?mid = "clamp ((low st + high st) / 2) m 1"
    note mid = clamp_mid_in_bracket[OF True Suc.prems(2,3)]
    from Suc.prems(1) True obtain b w1 where p: "probeAt env img ?mid w = Inr (b, w1)"
      by (auto simp: Let_def split: sum.splits)
    show ?thesis
    proof (cases "blob_size b > T")
      case big: True
      with Suc.prems(1) True p have
        "scaleLoop env img T m n (st\<lparr>high := ?mid\<rparr>) w1 = Inr (st', w')"
        by (simp add: Let_def)
      from Suc.IH[OF this] mid Suc.prems(3) show ?thesis by simp
    next
      case False
      with Suc.prems(1) True p have
        "scaleLoop env img T m n (st\<lparr>bestBlob := Some b, bestScale := ?mid, low := ?mid\<rparr>) w1
           = Inr (st', w')"
        by (simp add: Let_def)
      from Suc.IH[OF this] mid Suc.prems(2,3) show ?thesis by simp
    qed
  qed
qed

lemma rasterLoop_bracket:
  "rasterLoop br img mm T B minQ maxQ qn m n st w = (Finished st', w') \<Longrightarrow> m \<le> high st
     \<Longrightarrow> high st \<le> 1 \<Longrightarrow> low st \<le> high st
     \<Longrightarrow> low st \<le> low st' \<and> high st' \<le> high st \<and> low st' \<le> high st' \<and> m \<le> high st'"
proof (induction n arbitrary: st w)
  case 0
  then show ?case by simp
next
  case (Suc n)
  show ?case
  proof (cases "high st - low st > 1 / 1000")
    case False
    with Suc.prems show ?thesis by simp
  next
    case True
    let ?mid = "clamp ((low st + high st) / 2) m 1"
    note mid = clamp_mid_in_bracket[OF True Suc.prems(2,3)]
    obtain r w1 where t: "tryScale br img mm T B minQ maxQ qn ?mid w = (r, w1)"
      by (metis surj_pair)
    from Suc.prems(1) True t consider
      (down) "rasterLoop br img mm T B minQ maxQ qn m n (st\<lparr>high := ?mid\<rparr>) w1
                = (Finished st', w')"
      | (up) b where "rasterLoop br img mm T B minQ maxQ qn m n
                (st\<lparr>bestBlob := Some b, bestScale := ?mid, low := ?mid\<rparr>) w1 = (Finished st', w')"
      by (auto simp: Let_def split: option.splits if_splits)
    then show ?thesis
    proof cases
      case down
      from Suc.IH[OF this] mid Suc.prems(3) show ?thesis by simp
    next
      case up
      from Suc.IH[OF this] mid Suc.prems(2,3) show ?thesis by simp
    qed
  qed
qed

end
